theory Spec2Isabelle
  imports Complex_Main "HOL-Library.AList" "HOL-Library.Char_ord" "HOL-Library.List_Lexorder"
begin

section \<open>Rate limiter (src/security/rate\_limiter.py)\<close>

text \<open>
  Times are the readings of \<^verbatim>\<open>time.time()\<close>, taken as reals. The ceilings
  \<^verbatim>\<open>int(limit * burst_multiplier)\<close> are computed as Python computes them, in double
  arithmetic.
\<close>

record RateLimitConfig =
  enabled :: bool
  requests_per_minute :: int
  requests_per_hour :: int
  tokens_per_minute :: int
  tokens_per_hour :: int
  max_concurrent_requests :: int
  per_user :: bool
  burst_multiplier :: real

record RateLimitState =
  count :: int
  tokens :: int
  window_start :: real
  concurrent :: int

datatype rate_error =
    RateLimitExceeded (limit_type: string) (retry_after: "real option")
  | OverflowError

record RateLimiter =
  config :: RateLimitConfig
  user_minute_state :: "string \<rightharpoonup> RateLimitState"
  user_hour_state :: "string \<rightharpoonup> RateLimitState"
  global_minute_state :: RateLimitState
  global_hour_state :: RateLimitState
  concurrent_requests :: "string \<rightharpoonup> int"
  global_concurrent :: int

text \<open>\<^verbatim>\<open>RateLimitState()\<close>: the default factory reads the clock for \<open>window_start\<close>.\<close>

definition new_state :: "real \<Rightarrow> RateLimitState" where
  "new_state t = \<lparr>count = 0, tokens = 0, window_start = t, concurrent = 0\<rparr>"

definition init_limiter :: "RateLimitConfig \<Rightarrow> real \<Rightarrow> RateLimiter" where
  "init_limiter cfg t =
     \<lparr>config = cfg, user_minute_state = Map.empty, user_hour_state = Map.empty,
      global_minute_state = new_state t, global_hour_state = new_state t,
      concurrent_requests = Map.empty, global_concurrent = 0\<rparr>"

definition py_int :: "real \<Rightarrow> int" where
  "py_int x = (if 0 \<le> x then \<lfloor>x\<rfloor> else \<lceil>x\<rceil>)"

text \<open>
  \<^verbatim>\<open>int(self.config.requests_per_minute * self.config.burst_multiplier)\<close> multiplies an
  \<^verbatim>\<open>int\<close> by a \<^verbatim>\<open>float\<close>: Python converts the integer to a double, multiplies in
  double arithmetic, and \<^verbatim>\<open>int(...)\<close> truncates the product toward zero. A finite
  double is taken as the real number it denotes. \<open>round_double\<close> is the rounding of
  IEEE 754 binary64: to the nearest number with 53 significant bits and a least unit of
  \<open>2^-1074\<close>, ties to the even one; a result of magnitude \<open>2^1024\<close> or more is not a
  finite double (\<open>None\<close>). The conversion of an integer that is too large, and
  \<^verbatim>\<open>int(...)\<close> of an infinite product, raise \<^verbatim>\<open>OverflowError\<close>.
\<close>

fun bit_length :: "nat \<Rightarrow> nat" where
  "bit_length n = (if n = 0 then 0 else Suc (bit_length (n div 2)))"

declare bit_length.simps [simp del]

text \<open>The exponent \<open>e\<close> of a non-zero real: \<open>2^e \<le> |x| < 2^(e+1)\<close>.\<close>

definition exponent_of :: "real \<Rightarrow> int" where
  "exponent_of x =
     (if 1 \<le> \<bar>x\<bar> then int (bit_length (nat \<lfloor>\<bar>x\<bar>\<rfloor>)) - 1
      else - int (bit_length (nat (\<lceil>1 / \<bar>x\<bar>\<rceil> - 1))))"

definition pow2 :: "int \<Rightarrow> real" where
  "pow2 k = (if 0 \<le> k then 2 ^ nat k else 1 / 2 ^ nat (- k))"

definition round_half_even :: "real \<Rightarrow> int" where
  "round_half_even q =
     (let f = \<lfloor>q\<rfloor>; r = q - real_of_int f
      in if r < 1 / 2 then f else if 1 / 2 < r then f + 1 else if even f then f else f + 1)"

definition round_double :: "real \<Rightarrow> real option" where
  "round_double x =
     (if x = 0 then Some 0
      else
        (let ulp = pow2 (max (exponent_of x - 52) (- 1074));
             y = real_of_int (round_half_even (x / ulp)) * ulp
         in if pow2 1024 \<le> \<bar>y\<bar> then None else Some y))"

text \<open>\<^verbatim>\<open>int(limit * burst_multiplier)\<close>; \<open>None\<close> where Python raises \<^verbatim>\<open>OverflowError\<close>.\<close>

definition burst_ceiling :: "int \<Rightarrow> real \<Rightarrow> int option" where
  "burst_ceiling n b =
     (case round_double (real_of_int n) of
        None \<Rightarrow> None
      | Some a \<Rightarrow> (case round_double (a * b) of None \<Rightarrow> None | Some p \<Rightarrow> Some (py_int p)))"

text \<open>\<^verbatim>\<open>identifier = user_id or "global"\<close>: \<open>None\<close> and the empty string are falsy.\<close>

definition identifier_of :: "string option \<Rightarrow> string" where
  "identifier_of user_id =
     (case user_id of None \<Rightarrow> ''global'' | Some u \<Rightarrow> if u = [] then ''global'' else u)"

text \<open>
  Reading a \<^verbatim>\<open>defaultdict\<close> at a missing key stores the default there; the window
  objects are then mutated in place, which the setters write back.
\<close>

definition minute_state_of :: "RateLimiter \<Rightarrow> string \<Rightarrow> real \<Rightarrow> RateLimitState" where
  "minute_state_of s ident now =
     (if per_user (config s)
      then (case user_minute_state s ident of Some v \<Rightarrow> v | None \<Rightarrow> new_state now)
      else global_minute_state s)"

definition set_minute_state :: "RateLimiter \<Rightarrow> string \<Rightarrow> RateLimitState \<Rightarrow> RateLimiter" where
  "set_minute_state s ident v =
     (if per_user (config s)
      then s\<lparr>user_minute_state := (user_minute_state s)(ident \<mapsto> v)\<rparr>
      else s\<lparr>global_minute_state := v\<rparr>)"

definition hour_state_of :: "RateLimiter \<Rightarrow> string \<Rightarrow> real \<Rightarrow> RateLimitState" where
  "hour_state_of s ident now =
     (if per_user (config s)
      then (case user_hour_state s ident of Some v \<Rightarrow> v | None \<Rightarrow> new_state now)
      else global_hour_state s)"

definition set_hour_state :: "RateLimiter \<Rightarrow> string \<Rightarrow> RateLimitState \<Rightarrow> RateLimiter" where
  "set_hour_state s ident v =
     (if per_user (config s)
      then s\<lparr>user_hour_state := (user_hour_state s)(ident \<mapsto> v)\<rparr>
      else s\<lparr>global_hour_state := v\<rparr>)"

text \<open>\<^verbatim>\<open>self._concurrent_requests.get(identifier, 0)\<close>, the counter as it is read.\<close>

definition concurrent_of :: "RateLimiter \<Rightarrow> string \<Rightarrow> int" where
  "concurrent_of s ident = (case concurrent_requests s ident of Some n \<Rightarrow> n | None \<Rightarrow> 0)"

definition cleanup_windows :: "RateLimiter \<Rightarrow> real \<Rightarrow> RateLimiter" where
  "cleanup_windows s now =
     s\<lparr>user_minute_state :=
         (\<lambda>k. case user_minute_state s k of
                 None \<Rightarrow> None
               | Some v \<Rightarrow> if now - window_start v > 120 then None else Some v),
       user_hour_state :=
         (\<lambda>k. case user_hour_state s k of
                 None \<Rightarrow> None
               | Some v \<Rightarrow> if now - window_start v > 7200 then None else Some v),
       concurrent_requests :=
         (\<lambda>k. case concurrent_requests s k of
                 None \<Rightarrow> None
               | Some v \<Rightarrow> if v = 0 then None else Some v)\<rparr>"

text \<open>A window whose length has elapsed starts again: the count is cleared, the tokens are not.\<close>

definition roll_window :: "RateLimitState \<Rightarrow> real \<Rightarrow> real \<Rightarrow> RateLimitState" where
  "roll_window v now len = (if now - window_start v \<ge> len then v\<lparr>count := 0, window_start := now\<rparr> else v)"

definition check_concurrent_limit :: "RateLimiter \<Rightarrow> string \<Rightarrow> (rate_error + unit) \<times> RateLimiter" where
  "check_concurrent_limit s ident =
     (let s1 = (if per_user (config s)
                then s\<lparr>concurrent_requests := (concurrent_requests s)(ident \<mapsto> concurrent_of s ident)\<rparr>
                else s);
          current = (if per_user (config s) then concurrent_of s ident else global_concurrent s)
      in if current \<ge> max_concurrent_requests (config s)
         then (Inl (RateLimitExceeded ''concurrent'' (Some 1)), s1)
         else (Inr (), s1))"

definition check_request_limit :: "RateLimiter \<Rightarrow> string \<Rightarrow> real \<Rightarrow> (rate_error + unit) \<times> RateLimiter" where
  "check_request_limit s ident now =
     (let ms0 = minute_state_of s ident now;
          ms = roll_window ms0 now 60;
          s1 = set_minute_state s ident ms
      in case burst_ceiling (requests_per_minute (config s)) (burst_multiplier (config s)) of
           None \<Rightarrow> (Inl OverflowError, s1)
         | Some max_requests \<Rightarrow>
             if count ms \<ge> max_requests
             then (Inl (RateLimitExceeded ''requests_per_minute''
                          (Some (max 0 (60 - (now - window_start ms))))), s1)
             else
               (let hs0 = hour_state_of s1 ident now;
                    hs = roll_window hs0 now 3600;
                    s2 = set_hour_state s1 ident hs
                in if count hs \<ge> requests_per_hour (config s)
                   then (Inl (RateLimitExceeded ''requests_per_hour''
                                (Some (max 0 (3600 - (now - window_start hs))))), s2)
                   else (Inr (), s2)))"

definition check_token_limit :: "RateLimiter \<Rightarrow> string \<Rightarrow> int \<Rightarrow> real \<Rightarrow> (rate_error + unit) \<times> RateLimiter" where
  "check_token_limit s ident toks now =
     (let ms = minute_state_of s ident now;
          s1 = set_minute_state s ident ms
      in case burst_ceiling (tokens_per_minute (config s)) (burst_multiplier (config s)) of
           None \<Rightarrow> (Inl OverflowError, s1)
         | Some max_tokens \<Rightarrow>
             if tokens ms + toks > max_tokens
             then (Inl (RateLimitExceeded ''tokens_per_minute''
                          (Some (max 0 (60 - (now - window_start ms))))), s1)
             else (Inr (), s1))"

definition check_limit ::
  "RateLimiter \<Rightarrow> string option \<Rightarrow> int \<Rightarrow> real \<Rightarrow> (rate_error + bool) \<times> RateLimiter" where
  "check_limit s user_id estimated_tokens now =
     (if \<not> enabled (config s) then (Inr True, s)
      else
        (let ident = identifier_of user_id;
             s1 = cleanup_windows s now
         in case check_concurrent_limit s1 ident of
              (Inl e, s2) \<Rightarrow> (Inl e, s2)
            | (Inr u, s2) \<Rightarrow>
                (case check_request_limit s2 ident now of
                   (Inl e, s3) \<Rightarrow> (Inl e, s3)
                 | (Inr u, s3) \<Rightarrow>
                     if estimated_tokens > 0
                     then (case check_token_limit s3 ident estimated_tokens now of
                             (Inl e, s4) \<Rightarrow> (Inl e, s4)
                           | (Inr u, s4) \<Rightarrow> (Inr True, s4))
                     else (Inr True, s3))))"

definition record_request :: "RateLimiter \<Rightarrow> string option \<Rightarrow> int \<Rightarrow> real \<Rightarrow> RateLimiter" where
  "record_request s user_id tokens_used now =
     (if \<not> enabled (config s) then s
      else
        (let ident = identifier_of user_id;
             ms = minute_state_of s ident now;
             s1 = set_minute_state s ident (ms\<lparr>count := count ms + 1, tokens := tokens ms + tokens_used\<rparr>);
             hs = hour_state_of s1 ident now
         in set_hour_state s1 ident (hs\<lparr>count := count hs + 1, tokens := tokens hs + tokens_used\<rparr>)))"

definition acquire_concurrent_slot :: "RateLimiter \<Rightarrow> string option \<Rightarrow> RateLimiter" where
  "acquire_concurrent_slot s user_id =
     (if \<not> enabled (config s) then s
      else
        (let ident = identifier_of user_id
         in if per_user (config s)
            then s\<lparr>concurrent_requests := (concurrent_requests s)(ident \<mapsto> concurrent_of s ident + 1)\<rparr>
            else s\<lparr>global_concurrent := global_concurrent s + 1\<rparr>))"

definition release_concurrent_slot :: "RateLimiter \<Rightarrow> string option \<Rightarrow> RateLimiter" where
  "release_concurrent_slot s user_id =
     (if \<not> enabled (config s) then s
      else
        (let ident = identifier_of user_id
         in if per_user (config s)
            then s\<lparr>concurrent_requests := (concurrent_requests s)(ident \<mapsto> max 0 (concurrent_of s ident - 1))\<rparr>
            else s\<lparr>global_concurrent := max 0 (global_concurrent s - 1)\<rparr>))"

text \<open>\<^verbatim>\<open>get_usage\<close>: for each limit what was used, the limit reported and what remains.\<close>

record usage_entry =
  used :: int
  limit :: int
  remaining :: int

record usage =
  requests_minute :: usage_entry
  requests_hour :: usage_entry
  tokens_minute :: usage_entry
  concurrent_used :: int
  concurrent_limit :: int

definition get_usage :: "RateLimiter \<Rightarrow> string option \<Rightarrow> real \<Rightarrow> usage" where
  "get_usage s user_id now =
     (let ident = identifier_of user_id;
          ms = (case user_minute_state s ident of Some v \<Rightarrow> v | None \<Rightarrow> new_state now);
          hs = (case user_hour_state s ident of Some v \<Rightarrow> v | None \<Rightarrow> new_state now);
          cfg = config s
      in \<lparr>requests_minute =
            \<lparr>used = count ms, limit = requests_per_minute cfg,
             remaining = max 0 (requests_per_minute cfg - count ms)\<rparr>,
          requests_hour =
            \<lparr>used = count hs, limit = requests_per_hour cfg,
             remaining = max 0 (requests_per_hour cfg - count hs)\<rparr>,
          tokens_minute =
            \<lparr>used = tokens ms, limit = tokens_per_minute cfg,
             remaining = max 0 (tokens_per_minute cfg - tokens ms)\<rparr>,
          concurrent_used = concurrent_of s ident,
          concurrent_limit = max_concurrent_requests cfg\<rparr>)"

text \<open>
  What \<open>check_limit\<close> looks at: the windows of the identity after the clean-up of
  expired windows and the roll of an elapsed window, and the concurrency counter.
\<close>

definition minute_seen :: "RateLimiter \<Rightarrow> string option \<Rightarrow> real \<Rightarrow> RateLimitState" where
  "minute_seen s user_id now =
     roll_window (minute_state_of (cleanup_windows s now) (identifier_of user_id) now) now 60"

definition hour_seen :: "RateLimiter \<Rightarrow> string option \<Rightarrow> real \<Rightarrow> RateLimitState" where
  "hour_seen s user_id now =
     roll_window (hour_state_of (cleanup_windows s now) (identifier_of user_id) now) now 3600"

definition concurrent_seen :: "RateLimiter \<Rightarrow> string option \<Rightarrow> int" where
  "concurrent_seen s user_id =
     (if per_user (config s) then concurrent_of s (identifier_of user_id) else global_concurrent s)"

text \<open>
  The ceilings of the two per-minute checks, \<^verbatim>\<open>max_requests\<close> and \<^verbatim>\<open>max_tokens\<close>:
  \<open>None\<close> where computing them raises.
\<close>

definition minute_ceiling :: "RateLimitConfig \<Rightarrow> int option" where
  "minute_ceiling cfg = burst_ceiling (requests_per_minute cfg) (burst_multiplier cfg)"

definition token_ceiling :: "RateLimitConfig \<Rightarrow> int option" where
  "token_ceiling cfg = burst_ceiling (tokens_per_minute cfg) (burst_multiplier cfg)"

text \<open>The calls that touch the concurrency counters, in any order.\<close>

datatype slot_op = Acquire "string option" | Release "string option"

fun apply_slot_op :: "RateLimiter \<Rightarrow> slot_op \<Rightarrow> RateLimiter" where
  "apply_slot_op s (Acquire u) = acquire_concurrent_slot s u"
| "apply_slot_op s (Release u) = release_concurrent_slot s u"

definition run_slot_ops :: "RateLimiter \<Rightarrow> slot_op list \<Rightarrow> RateLimiter" where
  "run_slot_ops s ops = foldl apply_slot_op s ops"

definition counters_nonneg :: "RateLimiter \<Rightarrow> bool" where
  "counters_nonneg s \<longleftrightarrow> (\<forall>k. 0 \<le> concurrent_of s k) \<and> 0 \<le> global_concurrent s"


section \<open>Input validator (src/security/input\_validator.py)\<close>

text \<open>
  The compiled regular expressions belong to Python's \<^verbatim>\<open>re\<close> module; a compiled
  pattern is taken as its two methods: \<open>search\<close> gives the matched text
  (\<^verbatim>\<open>match.group(0)\<close>) when there is a match, \<open>sub\<close> substitutes a replacement.
\<close>

record ValidationConfig =
  max_question_length :: int
  max_tool_param_length :: int
  block_prompt_injection :: bool
  block_pii :: bool
  redact_pii :: bool

record compiled_pattern =
  search :: "string \<Rightarrow> string option"
  sub :: "string \<Rightarrow> string \<Rightarrow> string"

datatype detail = DInt int | DStr string | DList "string list"

datatype validation_error =
  ValidationError (validation_type: string) (details: "(string \<times> detail) list")

record InputValidator =
  vconfig :: ValidationConfig
  injection_patterns :: "compiled_pattern list"
  pii_patterns :: "(string \<times> compiled_pattern) list"
  blocked_patterns :: "compiled_pattern list"

fun detect_prompt_injection :: "compiled_pattern list \<Rightarrow> string \<Rightarrow> string option" where
  "detect_prompt_injection [] text = None"
| "detect_prompt_injection (p # ps) text =
     (case search p text of Some m \<Rightarrow> Some m | None \<Rightarrow> detect_prompt_injection ps text)"

definition detect_pii :: "(string \<times> compiled_pattern) list \<Rightarrow> string \<Rightarrow> string list" where
  "detect_pii pats text = map fst (filter (\<lambda>(n, p). search p text \<noteq> None) pats)"

definition upper_char :: "char \<Rightarrow> char" where
  "upper_char c =
     (if (97::nat) \<le> of_char c \<and> (of_char c :: nat) \<le> 122
      then char_of ((of_char c :: nat) - 32) else c)"

definition py_upper :: "string \<Rightarrow> string" where
  "py_upper s = map upper_char s"

fun redact_pii_text :: "(string \<times> compiled_pattern) list \<Rightarrow> string \<Rightarrow> string" where
  "redact_pii_text [] text = text"
| "redact_pii_text ((n, p) # ps) text =
     redact_pii_text ps (sub p (''[REDACTED-'' @ py_upper n @ '']'') text)"

definition validate :: "InputValidator \<Rightarrow> string \<Rightarrow> string \<Rightarrow> validation_error + string" where
  "validate v text context =
     (let max_length = (if context = ''question'' then max_question_length (vconfig v)
                        else max_tool_param_length (vconfig v));
          injection_match = (if block_prompt_injection (vconfig v)
                             then detect_prompt_injection (injection_patterns v) text else None)
      in if int (length text) > max_length
         then Inl (ValidationError ''length''
                     [(''length'', DInt (int (length text))), (''max'', DInt max_length)])
         else if injection_match \<noteq> None \<and> injection_match \<noteq> Some []
         then Inl (ValidationError ''prompt_injection'' [(''pattern'', DStr (the injection_match))])
         else if list_ex (\<lambda>p. search p text \<noteq> None) (blocked_patterns v)
         then Inl (ValidationError ''blocked_content'' [])
         else if block_pii (vconfig v) \<and> detect_pii (pii_patterns v) text \<noteq> []
         then Inl (ValidationError ''pii'' [(''pii_types'', DList (detect_pii (pii_patterns v) text))])
         else Inr (if redact_pii (vconfig v) then redact_pii_text (pii_patterns v) text else text))"

section \<open>Circuit breaker (src/mcp/d365\_tool.py)\<close>

text \<open>
  The wrapped coroutine is a function on the state of the world outside the breaker: it
  returns a result or raises, and leaves a new world. \<open>call\<close> reads the clock twice: at
  admission (\<open>now\<close>) and, when the function raised, in the handler (\<open>now'\<close>).
\<close>

datatype breaker_state = Closed | Open | HalfOpen

record CircuitBreaker =
  failure_count :: int
  failure_threshold :: int
  recovery_timeout :: real
  state :: breaker_state
  last_failure_time :: "real option"

datatype 'x breaker_error =
    CircuitBreakerOpen
  | BreakerTypeError  \<comment> \<open>\<^verbatim>\<open>time.time() - None\<close>\<close>
  | FuncError 'x      \<comment> \<open>the exception of the wrapped function, re-raised\<close>

definition init_breaker :: "int \<Rightarrow> real \<Rightarrow> CircuitBreaker" where
  "init_breaker threshold timeout =
     \<lparr>failure_count = 0, failure_threshold = threshold, recovery_timeout = timeout,
      state = Closed, last_failure_time = None\<rparr>"

text \<open>The first locked block of \<open>call\<close>: the admission test.\<close>

definition admit :: "CircuitBreaker \<Rightarrow> real \<Rightarrow> 'x breaker_error + CircuitBreaker" where
  "admit cb now =
     (if state cb = Open
      then (case last_failure_time cb of
              None \<Rightarrow> Inl BreakerTypeError
            | Some t \<Rightarrow> if now - t > recovery_timeout cb then Inr (cb\<lparr>state := HalfOpen\<rparr>)
                        else Inl CircuitBreakerOpen)
      else Inr cb)"

definition call ::
  "CircuitBreaker \<Rightarrow> ('w \<Rightarrow> ('x + 'a) \<times> 'w) \<Rightarrow> 'w \<Rightarrow> real \<Rightarrow> real
     \<Rightarrow> ('x breaker_error + 'a) \<times> CircuitBreaker \<times> 'w" where
  "call cb func w now now' =
     (case admit cb now of
        Inl e \<Rightarrow> (Inl e, cb, w)
      | Inr cb1 \<Rightarrow>
          (case func w of
             (Inr result, w') \<Rightarrow> (Inr result, cb1\<lparr>failure_count := 0, state := Closed\<rparr>, w')
           | (Inl e, w') \<Rightarrow>
               (let cb2 = cb1\<lparr>failure_count := failure_count cb1 + 1, last_failure_time := Some now'\<rparr>
                in (Inl (FuncError e),
                    (if failure_count cb2 \<ge> failure_threshold cb2 then cb2\<lparr>state := Open\<rparr> else cb2),
                    w'))))"

text \<open>A sequence of calls, each with its function and its two clock readings.\<close>

fun run_calls ::
  "CircuitBreaker \<Rightarrow> 'w \<Rightarrow> (('w \<Rightarrow> ('x + 'a) \<times> 'w) \<times> real \<times> real) list
     \<Rightarrow> ('x breaker_error + 'a) list \<times> CircuitBreaker \<times> 'w" where
  "run_calls cb w [] = ([], cb, w)"
| "run_calls cb w ((func, now, now') # cs) =
     (case call cb func w now now' of
        (r, cb1, w1) \<Rightarrow> (case run_calls cb1 w1 cs of (rs, cb2, w2) \<Rightarrow> (r # rs, cb2, w2)))"

definition is_failure :: "('x breaker_error + 'a) \<Rightarrow> bool" where
  "is_failure r = (case r of Inl (FuncError e) \<Rightarrow> True | _ \<Rightarrow> False)"

section \<open>Retry inside the breaker (src/mcp/d365\_tool.py)\<close>

text \<open>
  \<open>_execute_tool_call\<close> and \<open>refresh_token\<close> reach the MCP server and the token
  provider: they are functions on the outside world that return or raise. What
  \<open>_execute_with_retry\<close> does to the outside is recorded as a list of events. The
  \<^verbatim>\<open>Retry-After\<close> header is absent, a numeral, or text on which \<^verbatim>\<open>int(...)\<close> raises.
\<close>

datatype header = Absent | Numeric int | Malformed

datatype transient_kind = ConnectionError | TimeoutError | OSError

datatype exn =
    HTTPStatusError (status_code: int) (retry_after_header: header)
  | Transient transient_kind
  | ValueError
  | RuntimeError string
  | OtherException string

datatype event = ToolCall nat | Refresh | Sleep real

record RetryConfig =
  max_retries :: int
  retry_backoff_base :: real
  retry_backoff_max :: real

definition prepend_events ::
  "event list \<Rightarrow> (exn + 'r) \<times> 'w \<times> event list \<Rightarrow> (exn + 'r) \<times> 'w \<times> event list" where
  "prepend_events evs x = (case x of (res, w, evs') \<Rightarrow> (res, w, evs @ evs'))"

text \<open>
  The body of \<^verbatim>\<open>for attempt in range(self._max_retries + 1)\<close> from a given attempt on,
  and the \<^verbatim>\<open>raise last_error or RuntimeError(...)\<close> after the loop.
\<close>

function execute_with_retry_from ::
  "RetryConfig \<Rightarrow> ('w \<Rightarrow> (exn + 'r) \<times> 'w) \<Rightarrow> ('w \<Rightarrow> exn option \<times> 'w)
     \<Rightarrow> nat \<Rightarrow> exn option \<Rightarrow> 'w \<Rightarrow> (exn + 'r) \<times> 'w \<times> event list" where
  "execute_with_retry_from cfg exec refresh attempt last_error w =
     (if \<not> int attempt < max_retries cfg + 1
      then (Inl (case last_error of Some e \<Rightarrow> e | None \<Rightarrow> RuntimeError ''Max retries exceeded''), w, [])
      else
        (case exec w of
           (Inr r, w1) \<Rightarrow> (Inr r, w1, [ToolCall attempt])
         | (Inl e, w1) \<Rightarrow>
             (case e of
                HTTPStatusError code hdr \<Rightarrow>
                  if code = 401 \<and> int attempt < max_retries cfg
                  then (case refresh w1 of
                          (Some re, w2) \<Rightarrow> (Inl re, w2, [ToolCall attempt, Refresh])
                        | (None, w2) \<Rightarrow>
                            prepend_events [ToolCall attempt, Refresh]
                              (execute_with_retry_from cfg exec refresh (Suc attempt) last_error w2))
                  else if code = 429
                  then (case hdr of
                          Malformed \<Rightarrow> (Inl ValueError, w1, [ToolCall attempt])
                        | Absent \<Rightarrow>
                            if int attempt < max_retries cfg
                            then prepend_events [ToolCall attempt, Sleep 5]
                                   (execute_with_retry_from cfg exec refresh (Suc attempt) last_error w1)
                            else (Inl e, w1, [ToolCall attempt])
                        | Numeric n \<Rightarrow>
                            if int attempt < max_retries cfg
                            then prepend_events [ToolCall attempt, Sleep (real_of_int n)]
                                   (execute_with_retry_from cfg exec refresh (Suc attempt) last_error w1)
                            else (Inl e, w1, [ToolCall attempt]))
                  else (Inl e, w1, [ToolCall attempt])
              | Transient k \<Rightarrow>
                  if int attempt < max_retries cfg
                  then prepend_events
                         [ToolCall attempt,
                          Sleep (min (retry_backoff_base cfg * 2 ^ attempt) (retry_backoff_max cfg))]
                         (execute_with_retry_from cfg exec refresh (Suc attempt) (Some e) w1)
                  else (Inl e, w1, [ToolCall attempt])
              | _ \<Rightarrow> (Inl e, w1, [ToolCall attempt]))))"
  by pat_completeness auto
termination
  by (relation "measure (\<lambda>(cfg, exec, refresh, attempt, last_error, w). nat (max_retries cfg + 1 - int attempt))")
     auto

declare execute_with_retry_from.simps [simp del]

definition execute_with_retry ::
  "RetryConfig \<Rightarrow> ('w \<Rightarrow> (exn + 'r) \<times> 'w) \<Rightarrow> ('w \<Rightarrow> exn option \<times> 'w) \<Rightarrow> 'w
     \<Rightarrow> (exn + 'r) \<times> 'w \<times> event list" where
  "execute_with_retry cfg exec refresh w = execute_with_retry_from cfg exec refresh 0 None w"

section \<open>Serialized data\<close>

text \<open>
  Payloads read from the cache or the object store, serialized threads and agent outputs
  are Python values built from \<^verbatim>\<open>None\<close>, booleans, numbers, strings, lists and
  dictionaries with string keys. A dictionary is an association list read with
  \<open>map_of\<close> and written with \<open>AList.update\<close>, which keeps a key's position as a Python
  \<^verbatim>\<open>dict\<close> does.
\<close>

datatype json =
    JNull
  | JBool bool
  | JInt int
  | JFloat real
  | JStr string
  | JList "json list"
  | JDict "(string \<times> json) list"

type_synonym dict = "(string \<times> json) list"

text \<open>Python truthiness (\<^verbatim>\<open>if x:\<close>).\<close>

fun truthy :: "json \<Rightarrow> bool" where
  "truthy JNull = False"
| "truthy (JBool b) = b"
| "truthy (JInt n) = (n \<noteq> 0)"
| "truthy (JFloat x) = (x \<noteq> 0)"
| "truthy (JStr s) = (s \<noteq> [])"
| "truthy (JList xs) = (xs \<noteq> [])"
| "truthy (JDict d) = (d \<noteq> [])"

text \<open>\<^verbatim>\<open>d.get(k, default)\<close> and \<^verbatim>\<open>{**a, **b}\<close>.\<close>

definition dict_get :: "dict \<Rightarrow> string \<Rightarrow> json \<Rightarrow> json" where
  "dict_get d k dflt = (case map_of d k of Some v \<Rightarrow> v | None \<Rightarrow> dflt)"

definition dict_union :: "dict \<Rightarrow> dict \<Rightarrow> dict" where
  "dict_union a b = foldl (\<lambda>acc (k, v). AList.update k v acc) a b"

text \<open>
  Exceptions raised by the Python code of the memory manager and of the condition
  evaluator.
\<close>

datatype py_error =
    TypeError | AttributeError | KeyError | PyValueError | JSONDecodeError | RecursionError
  | AgentError string

text \<open>\<^verbatim>\<open>len(x)\<close>: defined on strings, lists and dictionaries.\<close>

fun py_len :: "json \<Rightarrow> py_error + nat" where
  "py_len (JStr s) = Inr (length s)"
| "py_len (JList xs) = Inr (length xs)"
| "py_len (JDict d) = Inr (length (remdups (map fst d)))"
| "py_len v = Inl TypeError"

text \<open>
  What the code takes from the Python runtime: \<^verbatim>\<open>str(x)\<close> of a value, and the
  conversions between a \<^verbatim>\<open>datetime\<close> (a point in time, a real) and its ISO text.
\<close>

record runtime =
  str_of :: "json \<Rightarrow> string"
  isoformat :: "real \<Rightarrow> string"
  fromisoformat :: "string \<Rightarrow> real option"

section \<open>Chat history manager (src/memory/manager.py)\<close>

text \<open>
  The agent and its threads belong to the SDK. A thread is a value of an opaque type
  \<open>'t\<close>; the agent is the capability the manager uses: \<open>get_new_thread\<close> gives a fresh
  thread, \<open>deserialize_thread\<close> builds one from serialized data or raises, \<open>run\<close>
  answers a prompt or raises; each acts on the state \<open>'a\<close> of the world behind the agent.
\<close>

datatype run_result =
    ResultWithText json     \<comment> \<open>an object with attribute \<open>text\<close>\<close>
  | ResultWithContent json  \<comment> \<open>an object with attribute \<open>content\<close> and no \<open>text\<close>\<close>
  | ResultStr string
  | ResultOther bool        \<comment> \<open>any other object, with its truth value\<close>

record ('t, 'a) agent =
  get_new_thread :: "'a \<Rightarrow> 't \<times> 'a"
  deserialize_thread :: "json \<Rightarrow> 'a \<Rightarrow> (py_error + 't) \<times> 'a"
  run :: "string \<Rightarrow> 't \<Rightarrow> 'a \<Rightarrow> (py_error + run_result) \<times> 'a"
  has_deserialize_thread :: bool

record 't ChatSession =
  chat_id :: string
  thread :: 't
  created_at :: real
  last_accessed :: real
  message_count :: json
  persisted :: json
  summarized :: bool
  summary_count :: int
  estimated_tokens :: int
  mcp_sessions :: "string \<rightharpoonup> string"

text \<open>
  Modelled from the spec: the hot cache and the cold object store
  (src/memory/cache.py and src/memory/persistence.py are not among the sources) are
  key-value stores: \<open>get(key)\<close> returns what \<open>set\<close>/\<open>save(key, value)\<close> stored, and a
  write reports whether the store accepted it.
\<close>

record ('t, 'a) manager =
  sessions :: "string \<rightharpoonup> 't ChatSession"
  cache_store :: "string \<rightharpoonup> json"
  cache_accepts :: bool
  persistence_store :: "string \<rightharpoonup> json"
  persistence_accepts :: bool
  persistence_enabled :: bool
  agent_world :: 'a

definition create_new_session ::
  "('a \<Rightarrow> 't \<times> 'a) \<Rightarrow> ('t, 'a) manager \<Rightarrow> string \<Rightarrow> real \<Rightarrow> (string \<times> 't) \<times> ('t, 'a) manager" where
  "create_new_session new_thread m cid now =
     (case new_thread (agent_world m) of
        (th, a1) \<Rightarrow>
          ((cid, th),
           m\<lparr>agent_world := a1,
             sessions := (sessions m)(cid \<mapsto>
               \<lparr>chat_id = cid, thread = th, created_at = now, last_accessed = now,
                message_count = JInt 0, persisted = JBool False, summarized = False,
                summary_count = 0, estimated_tokens = 0, mcp_sessions = Map.empty\<rparr>)\<rparr>))"

definition allowed_roles :: "string list" where
  "allowed_roles = [''system'', ''user'', ''assistant'', ''tool'', ''function'']"

text \<open>The loop over the messages of \<open>_validate_thread_data\<close>; it stops at the first bad one.\<close>

fun messages_valid :: "json list \<Rightarrow> bool" where
  "messages_valid [] = True"
| "messages_valid (msg # rest) =
     (case msg of
        JDict md \<Rightarrow>
          if (case map_of md ''role'' of
                Some r \<Rightarrow> r \<notin> set (map JStr allowed_roles)
              | None \<Rightarrow> False)
          then False
          else if (case map_of md ''content'' of
                     Some (JStr s) \<Rightarrow> False
                   | Some (JList xs) \<Rightarrow> False
                   | Some JNull \<Rightarrow> False
                   | Some v \<Rightarrow> True
                   | None \<Rightarrow> False)
          then False
          else messages_valid rest
      | _ \<Rightarrow> False)"

fun metadata_valid :: "dict \<Rightarrow> string list \<Rightarrow> bool" where
  "metadata_valid d [] = True"
| "metadata_valid d (fld # flds) =
     (case map_of d fld of
        Some (JStr s) \<Rightarrow> metadata_valid d flds
      | Some JNull \<Rightarrow> metadata_valid d flds
      | Some v \<Rightarrow> False
      | None \<Rightarrow> metadata_valid d flds)"

definition validate_thread_data :: "json \<Rightarrow> bool" where
  "validate_thread_data thread_data =
     (case thread_data of
        JDict d \<Rightarrow>
          (case map_of d ''messages'' of
             Some (JList messages) \<Rightarrow>
               if messages_valid messages
               then metadata_valid d [''_created_at'', ''_updated_at'', ''_persisted_at'']
               else False
           | Some v \<Rightarrow> False
           | None \<Rightarrow> metadata_valid d [''_created_at'', ''_updated_at'', ''_persisted_at''])
      | _ \<Rightarrow> False)"

definition strip_metadata :: "dict \<Rightarrow> dict" where
  "strip_metadata d = filter (\<lambda>(k, v). \<not> (k \<noteq> [] \<and> hd k = CHR ''_'')) d"

text \<open>
  \<open>_restore_session\<close>. Inside its \<^verbatim>\<open>try\<close>, \<open>deserialize_thread\<close> may raise, and so may
  \<^verbatim>\<open>datetime.fromisoformat\<close> on the stored \<open>_created_at\<close> (a \<open>TypeError\<close> when it is
  \<^verbatim>\<open>None\<close>, a \<open>ValueError\<close> on text that is no ISO date); the handler creates a new
  session.
\<close>

definition restore_session ::
  "runtime \<Rightarrow> ('t, 'a) agent \<Rightarrow> ('t, 'a) manager \<Rightarrow> string \<Rightarrow> json \<Rightarrow> real
     \<Rightarrow> (string \<times> 't) \<times> ('t, 'a) manager" where
  "restore_session rt ag m cid thread_data now =
     (if \<not> validate_thread_data thread_data
      then create_new_session (get_new_thread ag) m cid now
      else
        (case thread_data of
           JDict d \<Rightarrow>
             (case deserialize_thread ag (JDict (strip_metadata d)) (agent_world m) of
                (Inl e, a1) \<Rightarrow> create_new_session (get_new_thread ag) (m\<lparr>agent_world := a1\<rparr>) cid now
              | (Inr th, a1) \<Rightarrow>
                  (case (case dict_get d ''_created_at'' (JStr (isoformat rt now)) of
                           JStr s \<Rightarrow> fromisoformat rt s
                         | _ \<Rightarrow> None) of
                     None \<Rightarrow> create_new_session (get_new_thread ag) (m\<lparr>agent_world := a1\<rparr>) cid now
                   | Some created \<Rightarrow>
                       ((cid, th),
                        m\<lparr>agent_world := a1,
                          sessions := (sessions m)(cid \<mapsto>
                            \<lparr>chat_id = cid, thread = th, created_at = created, last_accessed = now,
                             message_count = dict_get d ''_message_count'' (JInt 0),
                             persisted = dict_get d ''_persisted'' (JBool False),
                             summarized = False, summary_count = 0, estimated_tokens = 0,
                             mcp_sessions = Map.empty\<rparr>)\<rparr>)))
         | _ \<Rightarrow> create_new_session (get_new_thread ag) m cid now))"

text \<open>
  The keys of a dictionary, each once, and \<^verbatim>\<open>{**a, **b}\<close>: the entries of \<open>b\<close> written
  over \<open>a\<close> key by key.
\<close>

definition dict_keys :: "dict \<Rightarrow> string list" where
  "dict_keys d = remdups (map fst d)"

definition dict_merge :: "dict \<Rightarrow> dict \<Rightarrow> dict" where
  "dict_merge a b = foldl (\<lambda>acc k. AList.update k (dict_get b k JNull) acc) a (dict_keys b)"

text \<open>\<^verbatim>\<open>x + 1\<close> on a value read from a dictionary, and \<^verbatim>\<open>a + b\<close> as it is iterated.\<close>

fun py_add_one :: "json \<Rightarrow> py_error + json" where
  "py_add_one (JInt n) = Inr (JInt (n + 1))"
| "py_add_one (JBool b) = Inr (JInt ((if b then 1 else 0) + 1))"
| "py_add_one (JFloat x) = Inr (JFloat (x + 1))"
| "py_add_one v = Inl TypeError"

fun py_concat_items :: "json \<Rightarrow> json \<Rightarrow> py_error + json list" where
  "py_concat_items (JList xs) (JList ys) = Inr (xs @ ys)"
| "py_concat_items (JStr s) (JStr t) = Inr (map (\<lambda>c. JStr [c]) (s @ t))"
| "py_concat_items u v = Inl TypeError"

definition py_str :: "runtime \<Rightarrow> json \<Rightarrow> string" where
  "py_str rt v = (case v of JStr s \<Rightarrow> s | _ \<Rightarrow> str_of rt v)"

text \<open>The de-duplication loop of \<open>_merge_thread_data\<close>, with its set \<open>seen\<close>.\<close>

fun dedupe_messages :: "runtime \<Rightarrow> json list \<Rightarrow> string list \<Rightarrow> json list \<Rightarrow> py_error + json list" where
  "dedupe_messages rt [] seen all_msgs = Inr all_msgs"
| "dedupe_messages rt (msg # rest) seen all_msgs =
     (case msg of
        JDict md \<Rightarrow>
          (let key = py_str rt (dict_get md ''content'' (JStr '''')) @
                     py_str rt (dict_get md ''timestamp'' (JStr ''''))
           in if key \<notin> set seen
              then dedupe_messages rt rest (key # seen) (all_msgs @ [msg])
              else dedupe_messages rt rest seen all_msgs)
      | _ \<Rightarrow> Inl AttributeError)"

text \<open>
  The arguments of the closing \<^verbatim>\<open>logger.debug\<close> call are evaluated whatever the log
  level: three \<^verbatim>\<open>len(d.get("messages", []))\<close>.
\<close>

definition debug_lengths :: "dict \<Rightarrow> dict \<Rightarrow> dict \<Rightarrow> py_error + dict" where
  "debug_lengths existing new merged =
     (case py_len (dict_get existing ''messages'' (JList [])) of
        Inl e \<Rightarrow> Inl e
      | Inr n1 \<Rightarrow>
          (case py_len (dict_get new ''messages'' (JList [])) of
             Inl e \<Rightarrow> Inl e
           | Inr n2 \<Rightarrow>
               (case py_len (dict_get merged ''messages'' (JList [])) of
                  Inl e \<Rightarrow> Inl e
                | Inr n3 \<Rightarrow> Inr merged)))"

definition merge_thread_data :: "runtime \<Rightarrow> dict \<Rightarrow> dict \<Rightarrow> py_error + dict" where
  "merge_thread_data rt existing new =
     (let merged0 = dict_merge existing new;
          merged = (case map_of existing ''_created_at'' of
                      Some c \<Rightarrow> AList.update ''_created_at'' c merged0
                    | None \<Rightarrow> merged0)
      in case (map_of existing ''messages'', map_of new ''messages'') of
           (Some existing_msgs, Some new_msgs) \<Rightarrow>
             (case py_len new_msgs of
                Inl e \<Rightarrow> Inl e
              | Inr n_new \<Rightarrow>
                  (case py_len existing_msgs of
                     Inl e \<Rightarrow> Inl e
                   | Inr n_existing \<Rightarrow>
                       if n_new \<ge> n_existing
                       then debug_lengths existing new (AList.update ''messages'' new_msgs merged)
                       else
                         (case py_concat_items existing_msgs new_msgs of
                            Inl e \<Rightarrow> Inl e
                          | Inr items \<Rightarrow>
                              (case dedupe_messages rt items [] [] of
                                 Inl e \<Rightarrow> Inl e
                               | Inr all_msgs \<Rightarrow>
                                   debug_lengths existing new
                                     (AList.update ''messages'' (JList all_msgs) merged)))))
         | _ \<Rightarrow> debug_lengths existing new merged)"

text \<open>
  The blob \<open>_persist_with_merge\<close> builds before it stamps and saves it: the merge with the
  stored blob when there is a truthy one (with \<open>_merge_count\<close> raised by one), the new
  data itself otherwise.
\<close>

definition merged_blob :: "runtime \<Rightarrow> json option \<Rightarrow> json \<Rightarrow> py_error + dict" where
  "merged_blob rt existing new_data =
     (case existing of
        Some ex \<Rightarrow>
          if truthy ex
          then (case (ex, new_data) of
                  (JDict ed, JDict nd) \<Rightarrow>
                    (case merge_thread_data rt ed nd of
                       Inl e \<Rightarrow> Inl e
                     | Inr merged \<Rightarrow>
                         (case py_add_one (dict_get ed ''_merge_count'' (JInt 0)) of
                            Inl e \<Rightarrow> Inl e
                          | Inr c \<Rightarrow> Inr (AList.update ''_merge_count'' c merged)))
                | _ \<Rightarrow> Inl TypeError)
          else (case new_data of JDict nd \<Rightarrow> Inr nd | _ \<Rightarrow> Inl TypeError)
      | None \<Rightarrow> (case new_data of JDict nd \<Rightarrow> Inr nd | _ \<Rightarrow> Inl TypeError))"

definition persist_with_merge ::
  "runtime \<Rightarrow> ('t, 'a) manager \<Rightarrow> string \<Rightarrow> json \<Rightarrow> real \<Rightarrow> bool \<times> ('t, 'a) manager" where
  "persist_with_merge rt m cid new_data now =
     (case merged_blob rt (persistence_store m cid) new_data of
        Inl e \<Rightarrow> (False, m)
      | Inr merged \<Rightarrow>
          (let stamped = AList.update ''_persisted_at'' (JStr (isoformat rt now))
                           (AList.update ''_persisted'' (JBool True) merged)
           in if persistence_accepts m
              then (True,
                    m\<lparr>persistence_store := (persistence_store m)(cid \<mapsto> JDict stamped),
                      sessions := (case sessions m cid of
                                     Some sess \<Rightarrow> (sessions m)(cid \<mapsto> sess\<lparr>persisted := JBool True\<rparr>)
                                   | None \<Rightarrow> sessions m)\<rparr>)
              else (False, m)))"

subsection \<open>Summarization\<close>

text \<open>
  What the manager asks of a thread object: \<open>serialize\<close> gives its serialized form or
  raises; \<open>messages_of\<close> is its attribute \<open>messages\<close> (or \<open>_messages\<close>), absent on a
  thread that has neither. A message there is an object with a \<open>content\<close> attribute or
  a plain value. Thread objects are taken to be truthy.
\<close>

record SummarizationConfig =
  summarization_enabled :: bool
  max_tokens :: int
  summary_target_tokens :: int
  recent_messages_to_keep :: int

datatype message_obj = WithContent json | PlainMessage json

record 't thread_ops =
  serialize :: "'t \<Rightarrow> py_error + json"
  messages_of :: "'t \<Rightarrow> message_obj list option"

fun sum_chars :: "('x \<Rightarrow> py_error + nat) \<Rightarrow> 'x list \<Rightarrow> py_error + nat" where
  "sum_chars f [] = Inr 0"
| "sum_chars f (x # xs) =
     (case f x of
        Inl e \<Rightarrow> Inl e
      | Inr n \<Rightarrow> (case sum_chars f xs of Inl e \<Rightarrow> Inl e | Inr others \<Rightarrow> Inr (n + others)))"

fun block_chars :: "json \<Rightarrow> py_error + nat" where
  "block_chars (JDict d) = (case map_of d ''text'' of Some t \<Rightarrow> py_len t | None \<Rightarrow> Inr 0)"
| "block_chars (JStr s) = Inr (length s)"
| "block_chars v = Inr 0"

definition content_chars :: "json \<Rightarrow> py_error + nat" where
  "content_chars c =
     (case c of JStr s \<Rightarrow> Inr (length s) | JList blocks \<Rightarrow> sum_chars block_chars blocks | _ \<Rightarrow> Inr 0)"

definition message_content :: "runtime \<Rightarrow> message_obj \<Rightarrow> json" where
  "message_content rt mo =
     (case mo of
        WithContent c \<Rightarrow> c
      | PlainMessage (JDict d) \<Rightarrow> dict_get d ''content'' (JStr '''')
      | PlainMessage v \<Rightarrow> JStr (py_str rt v))"

definition estimate_thread_tokens :: "runtime \<Rightarrow> 't thread_ops \<Rightarrow> 't \<Rightarrow> int" where
  "estimate_thread_tokens rt ops th =
     (case messages_of ops th of
        None \<Rightarrow> 0
      | Some msgs \<Rightarrow>
          (case sum_chars (\<lambda>mo. content_chars (message_content rt mo)) msgs of
             Inl e \<Rightarrow> 0
           | Inr total_chars \<Rightarrow> int total_chars div 4))"

definition needs_summarization ::
  "SummarizationConfig \<Rightarrow> runtime \<Rightarrow> 't thread_ops \<Rightarrow> ('t, 'a) manager \<Rightarrow> string
     \<Rightarrow> bool \<times> ('t, 'a) manager" where
  "needs_summarization cfg rt ops m cid =
     (if \<not> summarization_enabled cfg then (False, m)
      else
        (case sessions m cid of
           None \<Rightarrow> (False, m)
         | Some sess \<Rightarrow>
             (let est = estimate_thread_tokens rt ops (thread sess)
              in (est > max_tokens cfg,
                  m\<lparr>sessions := (sessions m)(cid \<mapsto> sess\<lparr>estimated_tokens := est\<rparr>)\<rparr>))))"

text \<open>Iterating a value, and the two slices \<^verbatim>\<open>x[:-k]\<close> and \<^verbatim>\<open>x[-k:]\<close> for \<open>k > 0\<close>.\<close>

fun items_of :: "json \<Rightarrow> py_error + json list" where
  "items_of (JList xs) = Inr xs"
| "items_of (JStr s) = Inr (map (\<lambda>c. JStr [c]) s)"
| "items_of (JDict d) = Inr (map JStr (remdups (map fst d)))"
| "items_of v = Inl TypeError"

fun split_recent :: "json \<Rightarrow> nat \<Rightarrow> py_error + json \<times> json" where
  "split_recent (JList xs) k = Inr (JList (take (length xs - k) xs), JList (drop (length xs - k) xs))"
| "split_recent (JStr s) k = Inr (JStr (take (length s - k) s), JStr (drop (length s - k) s))"
| "split_recent v k = Inl TypeError"

fun join_with :: "string \<Rightarrow> string list \<Rightarrow> string" where
  "join_with sep [] = []"
| "join_with sep [x] = x"
| "join_with sep (x # y # ys) = x @ sep @ join_with sep (y # ys)"

text \<open>\<open>_format_messages_for_summary\<close>, one message at a time.\<close>

definition block_text_parts :: "json list \<Rightarrow> json list" where
  "block_text_parts blocks =
     concat (map (\<lambda>b. case b of
                         JDict d \<Rightarrow> (case map_of d ''text'' of Some t \<Rightarrow> [t] | None \<Rightarrow> [])
                       | JStr s \<Rightarrow> [JStr s]
                       | _ \<Rightarrow> []) blocks)"

definition join_texts :: "json list \<Rightarrow> py_error + json" where
  "join_texts parts =
     (if list_all (\<lambda>p. case p of JStr s \<Rightarrow> True | _ \<Rightarrow> False) parts
      then Inr (JStr (join_with '' '' (map (\<lambda>p. case p of JStr s \<Rightarrow> s | _ \<Rightarrow> []) parts)))
      else Inl TypeError)"

definition format_message :: "runtime \<Rightarrow> json \<Rightarrow> py_error + string" where
  "format_message rt msg =
     (case msg of
        JDict md \<Rightarrow>
          (case (case dict_get md ''content'' (JStr '''') of
                   JList blocks \<Rightarrow> join_texts (block_text_parts blocks)
                 | c \<Rightarrow> Inr c) of
             Inl e \<Rightarrow> Inl e
           | Inr content \<Rightarrow>
               (case py_len content of
                  Inl e \<Rightarrow> Inl e
                | Inr n \<Rightarrow>
                    (case (if n > 1000
                           then (case content of
                                   JStr s \<Rightarrow> Inr (JStr (take 1000 s @ ''...[truncated]''))
                                 | _ \<Rightarrow> Inl TypeError)
                           else Inr content) of
                       Inl e \<Rightarrow> Inl e
                     | Inr shown \<Rightarrow>
                         (case dict_get md ''role'' (JStr ''unknown'') of
                            JStr role \<Rightarrow> Inr (py_upper role @ '': '' @ py_str rt shown)
                          | _ \<Rightarrow> Inl AttributeError))))
      | _ \<Rightarrow> Inl AttributeError)"

fun format_lines :: "runtime \<Rightarrow> json list \<Rightarrow> py_error + string list" where
  "format_lines rt [] = Inr []"
| "format_lines rt (msg # rest) =
     (case format_message rt msg of
        Inl e \<Rightarrow> Inl e
      | Inr line \<Rightarrow> (case format_lines rt rest of Inl e \<Rightarrow> Inl e | Inr ls \<Rightarrow> Inr (line # ls)))"

definition format_messages_for_summary :: "runtime \<Rightarrow> json \<Rightarrow> py_error + string" where
  "format_messages_for_summary rt messages =
     (case items_of messages of
        Inl e \<Rightarrow> Inl e
      | Inr msgs \<Rightarrow>
          (case format_lines rt msgs of
             Inl e \<Rightarrow> Inl e
           | Inr ls \<Rightarrow> Inr (join_with [CHR 0x0A, CHR 0x0A] ls)))"

definition summary_prompt :: "runtime \<Rightarrow> SummarizationConfig \<Rightarrow> string \<Rightarrow> string" where
  "summary_prompt rt cfg conversation_text =
     ''Please provide a concise summary of the following conversation.'' @ [CHR 0x0A] @
     ''Focus on:'' @ [CHR 0x0A] @
     ''1. Key topics discussed'' @ [CHR 0x0A] @
     ''2. Important decisions or conclusions'' @ [CHR 0x0A] @
     ''3. Any action items or pending questions'' @ [CHR 0x0A] @
     ''4. Context that would be needed to continue the conversation'' @ [CHR 0x0A, CHR 0x0A] @
     ''Keep the summary under '' @ py_str rt (JInt (summary_target_tokens cfg)) @ '' tokens.'' @
     [CHR 0x0A, CHR 0x0A] @ ''CONVERSATION:'' @ [CHR 0x0A] @ conversation_text @
     [CHR 0x0A, CHR 0x0A] @ ''SUMMARY:''"

text \<open>
  \<open>_generate_summary\<close>: formatting happens outside its \<^verbatim>\<open>try\<close> and may raise; a failing
  agent gives \<^verbatim>\<open>None\<close>.
\<close>

definition generate_summary ::
  "runtime \<Rightarrow> SummarizationConfig \<Rightarrow> ('t, 'a) agent \<Rightarrow> json \<Rightarrow> 'a \<Rightarrow> py_error + json option \<times> 'a" where
  "generate_summary rt cfg ag messages a =
     (case format_messages_for_summary rt messages of
        Inl e \<Rightarrow> Inl e
      | Inr conversation_text \<Rightarrow>
          (case get_new_thread ag a of
             (summary_thread, a1) \<Rightarrow>
               (case run ag (summary_prompt rt cfg conversation_text) summary_thread a1 of
                  (Inl e, a2) \<Rightarrow> Inr (None, a2)
                | (Inr (ResultWithText t), a2) \<Rightarrow> Inr (Some t, a2)
                | (Inr (ResultWithContent c), a2) \<Rightarrow> Inr (Some c, a2)
                | (Inr (ResultStr s), a2) \<Rightarrow> Inr (Some (JStr s), a2)
                | (Inr (ResultOther b), a2) \<Rightarrow> Inr (None, a2))))"

text \<open>
  \<open>_create_summarized_thread\<close> uses the manager's own agent; every failure inside gives
  \<^verbatim>\<open>None\<close>, a failing deserialization falls back to the empty new thread.
\<close>

definition create_summarized_thread ::
  "runtime \<Rightarrow> ('t, 'a) agent option \<Rightarrow> json \<Rightarrow> json \<Rightarrow> 'a \<Rightarrow> 't option \<times> 'a" where
  "create_summarized_thread rt self_agent summary recent_messages a =
     (case self_agent of
        None \<Rightarrow> (None, a)
      | Some sa \<Rightarrow>
          (case get_new_thread sa a of
             (new_thread, a1) \<Rightarrow>
               (case recent_messages of
                  JList recent \<Rightarrow>
                    (let summary_message =
                           JDict [(''role'', JStr ''system''),
                                  (''content'',
                                   JStr (''[CONVERSATION SUMMARY]'' @ [CHR 0x0A] @ py_str rt summary @
                                         [CHR 0x0A] @ ''[END SUMMARY]'' @ [CHR 0x0A, CHR 0x0A] @
                                         ''The conversation continues below:''))];
                         clean_data = JDict [(''messages'', JList (summary_message # recent))]
                     in if has_deserialize_thread sa
                        then (case deserialize_thread sa clean_data a1 of
                                (Inr th, a2) \<Rightarrow> (Some th, a2)
                              | (Inl e, a2) \<Rightarrow> (Some new_thread, a2))
                        else (Some new_thread, a1))
                | _ \<Rightarrow> (None, a1))))"

text \<open>\<open>save_thread\<close>; the session is updated before the serialized data is touched.\<close>

definition save_thread ::
  "runtime \<Rightarrow> 't thread_ops \<Rightarrow> ('t, 'a) manager \<Rightarrow> string \<Rightarrow> 't \<Rightarrow> bool \<Rightarrow> real
     \<Rightarrow> bool \<times> ('t, 'a) manager" where
  "save_thread rt ops m cid th force_persist now =
     (case serialize ops th of
        Inl e \<Rightarrow> (False, m)
      | Inr thread_data \<Rightarrow>
          (case (case sessions m cid of
                   None \<Rightarrow> Inr (m, [])
                 | Some sess \<Rightarrow>
                     (case py_add_one (message_count sess) of
                        Inl e \<Rightarrow> Inl (m\<lparr>sessions := (sessions m)(cid \<mapsto> sess\<lparr>last_accessed := now\<rparr>)\<rparr>)
                      | Inr c \<Rightarrow>
                          Inr (m\<lparr>sessions := (sessions m)(cid \<mapsto>
                                   sess\<lparr>last_accessed := now, message_count := c\<rparr>)\<rparr>,
                               [(''_created_at'', JStr (isoformat rt (created_at sess))),
                                (''_message_count'', c)]))) of
             Inl m1 \<Rightarrow> (False, m1)
           | Inr (m1, meta) \<Rightarrow>
               (case thread_data of
                  JDict td \<Rightarrow>
                    (let data = JDict (AList.update ''_updated_at'' (JStr (isoformat rt now))
                                         (foldl (\<lambda>acc (k, v). AList.update k v acc) td meta));
                         m2 = (if cache_accepts m1
                               then m1\<lparr>cache_store := (cache_store m1)(cid \<mapsto> data)\<rparr> else m1)
                     in if (force_persist \<or> \<not> cache_accepts m1) \<and> persistence_enabled m2
                        then (True, snd (persist_with_merge rt m2 cid data now))
                        else (True, m2))
                | _ \<Rightarrow> (False, m1))))"

definition summarize_if_needed ::
  "SummarizationConfig \<Rightarrow> runtime \<Rightarrow> 't thread_ops \<Rightarrow> ('t, 'a) agent option
     \<Rightarrow> ('t, 'a) agent option \<Rightarrow> ('t, 'a) manager \<Rightarrow> string \<Rightarrow> real \<Rightarrow> bool \<times> ('t, 'a) manager" where
  "summarize_if_needed cfg rt ops self_agent summarizer_agent m cid now =
     (case needs_summarization cfg rt ops m cid of
        (False, m1) \<Rightarrow> (False, m1)
      | (True, m1) \<Rightarrow>
          (case sessions m1 cid of
             None \<Rightarrow> (False, m1)
           | Some sess \<Rightarrow>
               (case (case summarizer_agent of Some ag \<Rightarrow> Some ag | None \<Rightarrow> self_agent) of
                  None \<Rightarrow> (False, m1)
                | Some ag \<Rightarrow>
                    (case serialize ops (thread sess) of
                       Inl e \<Rightarrow> (False, m1)
                     | Inr (JDict thread_data) \<Rightarrow>
                         (let messages = dict_get thread_data ''messages'' (JList [])
                          in case py_len messages of
                               Inl e \<Rightarrow> (False, m1)
                             | Inr n \<Rightarrow>
                                 if int n \<le> recent_messages_to_keep cfg then (False, m1)
                                 else
                                   (case (if recent_messages_to_keep cfg > 0
                                          then split_recent messages (nat (recent_messages_to_keep cfg))
                                          else Inr (messages, JList [])) of
                                      Inl e \<Rightarrow> (False, m1)
                                    | Inr (old_messages, recent_messages) \<Rightarrow>
                                        (case generate_summary rt cfg ag old_messages (agent_world m1) of
                                           Inl e \<Rightarrow> (False, m1)
                                         | Inr (None, a1) \<Rightarrow> (False, m1\<lparr>agent_world := a1\<rparr>)
                                         | Inr (Some summary, a1) \<Rightarrow>
                                             if \<not> truthy summary then (False, m1\<lparr>agent_world := a1\<rparr>)
                                             else
                                               (case create_summarized_thread rt self_agent summary
                                                       recent_messages a1 of
                                                  (None, a2) \<Rightarrow> (False, m1\<lparr>agent_world := a2\<rparr>)
                                                | (Some new_thread, a2) \<Rightarrow>
                                                    (let m2 = m1\<lparr>agent_world := a2,
                                                                sessions := (sessions m1)(cid \<mapsto>
                                                                  sess\<lparr>thread := new_thread, summarized := True,
                                                                       summary_count := summary_count sess + 1\<rparr>)\<rparr>;
                                                         m3 = snd (save_thread rt ops m2 cid new_thread False now);
                                                         new_tokens = estimate_thread_tokens rt ops new_thread
                                                     in (True,
                                                         m3\<lparr>sessions :=
                                                              (case sessions m3 cid of
                                                                 None \<Rightarrow> sessions m3
                                                               | Some s3 \<Rightarrow> (sessions m3)(cid \<mapsto>
                                                                   s3\<lparr>estimated_tokens := new_tokens\<rparr>))\<rparr>))))))
                     | Inr v \<Rightarrow> (False, m1)))))"

section \<open>Condition evaluator (src/loaders/workflows.py)\<close>

text \<open>
  Characters are taken to be ASCII: \<^verbatim>\<open>\s\<close> and \<^verbatim>\<open>str.strip\<close> see the ASCII white space,
  \<^verbatim>\<open>\w\<close> the ASCII letters, digits and the underscore, \<^verbatim>\<open>str.lower\<close> and
  \<^verbatim>\<open>re.IGNORECASE\<close> fold the ASCII capitals.
\<close>

definition is_space :: "char \<Rightarrow> bool" where
  "is_space c \<longleftrightarrow> (of_char c :: nat) \<in> {9, 10, 11, 12, 13, 28, 29, 30, 31, 32}"

definition is_word :: "char \<Rightarrow> bool" where
  "is_word c \<longleftrightarrow>
     (let n = (of_char c :: nat)
      in (48 \<le> n \<and> n \<le> 57) \<or> (65 \<le> n \<and> n \<le> 90) \<or> (97 \<le> n \<and> n \<le> 122) \<or> n = 95)"

definition lower_char :: "char \<Rightarrow> char" where
  "lower_char c =
     (if (65::nat) \<le> of_char c \<and> (of_char c :: nat) \<le> 90
      then char_of ((of_char c :: nat) + 32) else c)"

definition py_lower :: "string \<Rightarrow> string" where
  "py_lower s = map lower_char s"

definition py_strip :: "string \<Rightarrow> string" where
  "py_strip s = rev (dropWhile is_space (rev (dropWhile is_space s)))"

definition starts_with :: "string \<Rightarrow> string \<Rightarrow> bool" where
  "starts_with p s \<longleftrightarrow> take (length p) s = p"

text \<open>\<^verbatim>\<open>needle in haystack\<close> on strings.\<close>

fun is_sub :: "string \<Rightarrow> string \<Rightarrow> bool" where
  "is_sub needle [] = (needle = [])"
| "is_sub needle (c # cs) = (starts_with needle (c # cs) \<or> is_sub needle cs)"

text \<open>\<^verbatim>\<open>s.split('.')\<close> and \<^verbatim>\<open>s.replace("'", '"')\<close>.\<close>

fun split_dots :: "string \<Rightarrow> string \<Rightarrow> string list" where
  "split_dots acc [] = [rev acc]"
| "split_dots acc (c # cs) = (if c = CHR ''.'' then rev acc # split_dots [] cs else split_dots (c # acc) cs)"

definition replace_quotes :: "string \<Rightarrow> string" where
  "replace_quotes s = map (\<lambda>c. if c = CHR 0x27 then CHR 0x22 else c) s"

subsection \<open>Python's comparisons on values\<close>

text \<open>
  \<open>==\<close> compares numbers (booleans among them) by value, strings, lists and
  dictionaries by content, and is false across kinds. \<open>canon\<close> brings a value to the
  form in which this is equality: numbers as reals, a dictionary as its entries in key
  order.
\<close>

definition sort_dict :: "dict \<Rightarrow> dict" where
  "sort_dict al = map (\<lambda>k. (k, the (map_of al k))) (sort (remdups (map fst al)))"

fun canon :: "json \<Rightarrow> json" where
  "canon (JBool b) = JFloat (if b then 1 else 0)"
| "canon (JInt n) = JFloat (real_of_int n)"
| "canon (JList xs) = JList (map canon xs)"
| "canon (JDict d) = JDict (sort_dict (map (\<lambda>(k, v). (k, canon v)) d))"
| "canon v = v"

definition py_eq :: "json \<Rightarrow> json \<Rightarrow> bool" where
  "py_eq a b \<longleftrightarrow> canon a = canon b"

fun num_of :: "json \<Rightarrow> real option" where
  "num_of (JBool b) = Some (if b then 1 else 0)"
| "num_of (JInt n) = Some (real_of_int n)"
| "num_of (JFloat x) = Some x"
| "num_of v = None"

datatype cmp = LT | EQ | GT

fun str_cmp :: "string \<Rightarrow> string \<Rightarrow> cmp" where
  "str_cmp [] [] = EQ"
| "str_cmp [] (d # t) = LT"
| "str_cmp (c # s) [] = GT"
| "str_cmp (c # s) (d # t) =
     (if (of_char c :: nat) < of_char d then LT
      else if (of_char d :: nat) < of_char c then GT
      else str_cmp s t)"

text \<open>
  The ordering comparisons: numbers with numbers, strings with strings, lists with lists
  (decided at the first pair of unequal elements); anything else raises \<open>TypeError\<close>.
\<close>

fun py_cmp :: "json \<Rightarrow> json \<Rightarrow> py_error + cmp" where
  "py_cmp (JStr s) (JStr t) = Inr (str_cmp s t)"
| "py_cmp (JList []) (JList []) = Inr EQ"
| "py_cmp (JList []) (JList (y # ys)) = Inr LT"
| "py_cmp (JList (x # xs)) (JList []) = Inr GT"
| "py_cmp (JList (x # xs)) (JList (y # ys)) =
     (if py_eq x y then py_cmp (JList xs) (JList ys) else py_cmp x y)"
| "py_cmp a b =
     (case (num_of a, num_of b) of
        (Some x, Some y) \<Rightarrow> Inr (if x < y then LT else if y < x then GT else EQ)
      | _ \<Rightarrow> Inl TypeError)"

text \<open>\<^verbatim>\<open>a in b\<close>: membership in a list, substring of a string, key of a dictionary.\<close>

definition py_in :: "json \<Rightarrow> json \<Rightarrow> py_error + bool" where
  "py_in a b =
     (case b of
        JList ys \<Rightarrow> Inr (list_ex (py_eq a) ys)
      | JStr t \<Rightarrow> (case a of JStr s \<Rightarrow> Inr (is_sub s t) | _ \<Rightarrow> Inl TypeError)
      | JDict d \<Rightarrow>
          (case a of
             JList xs \<Rightarrow> Inl TypeError
           | JDict e \<Rightarrow> Inl TypeError
           | JStr s \<Rightarrow> Inr (s \<in> set (map fst d))
           | _ \<Rightarrow> Inr False)
      | _ \<Rightarrow> Inl TypeError)"

text \<open>The table \<open>OPERATORS\<close>, looked up with \<^verbatim>\<open>OPERATORS.get(op_str)\<close>.\<close>

definition operator_of :: "string \<Rightarrow> (json \<Rightarrow> json \<Rightarrow> py_error + bool) option" where
  "operator_of op_str =
     (if op_str = ''=='' then Some (\<lambda>a b. Inr (py_eq a b))
      else if op_str = ''!='' then Some (\<lambda>a b. Inr (\<not> py_eq a b))
      else if op_str = ''>'' then Some (\<lambda>a b. map_sum id (\<lambda>c. c = GT) (py_cmp a b))
      else if op_str = ''>='' then Some (\<lambda>a b. map_sum id (\<lambda>c. c \<noteq> LT) (py_cmp a b))
      else if op_str = ''<'' then Some (\<lambda>a b. map_sum id (\<lambda>c. c = LT) (py_cmp a b))
      else if op_str = ''<='' then Some (\<lambda>a b. map_sum id (\<lambda>c. c \<noteq> GT) (py_cmp a b))
      else if op_str = ''in'' then Some (\<lambda>a b. py_in a b)
      else if op_str = ''not in'' then Some (\<lambda>a b. map_sum id Not (py_in a b))
      else if op_str = ''contains'' then Some (\<lambda>a b. py_in b a)
      else None)"

subsection \<open>The regular expressions\<close>

text \<open>
  \<^verbatim>\<open>re.split(r'\s+and\s+', s, flags=re.IGNORECASE)\<close> (and the same for \<open>or\<close>): a match
  begins at a white space, runs over all the white space there, the word in any case, and
  all the white space after it, of which there is at least one character. \<open>match_here\<close>
  gives what is left of the text after a match at its beginning.
\<close>

definition match_here :: "string \<Rightarrow> string \<Rightarrow> string option" where
  "match_here w s =
     (if s \<noteq> [] \<and> is_space (hd s)
      then (let r1 = dropWhile is_space s
            in if py_lower (take (length w) r1) = w \<and> drop (length w) r1 \<noteq> []
                  \<and> is_space (hd (drop (length w) r1))
               then Some (dropWhile is_space (drop (length w) r1))
               else None)
      else None)"

function split_word :: "string \<Rightarrow> string \<Rightarrow> string \<Rightarrow> string list" where
  "split_word w acc [] = [rev acc]"
| "split_word w acc (c # cs) =
     (case match_here w (c # cs) of
        Some rest \<Rightarrow> rev acc # split_word w [] rest
      | None \<Rightarrow> split_word w (c # acc) cs)"
  by pat_completeness auto
termination
proof (relation "measure (\<lambda>(w, acc, s). length s)")
  show "wf (measure (\<lambda>(w, acc, s). length s))" by simp
next
  fix w acc :: string and c :: char and cs rest :: string
  assume "match_here w (c # cs) = Some rest"
  then have sp: "is_space c"
    and rest: "rest = dropWhile is_space (drop (length w) (dropWhile is_space (c # cs)))"
    by (auto simp: match_here_def Let_def split: if_splits)
  have "length rest \<le> length (dropWhile is_space (c # cs))"
    unfolding rest by (rule order_trans [OF length_dropWhile_le]) simp
  also from sp have "\<dots> \<le> length cs" by (simp add: length_dropWhile_le)
  finally show "((w, [], rest), (w, acc, c # cs)) \<in> measure (\<lambda>(w, acc, s). length s)" by simp
next
  fix w acc :: string and c :: char and cs :: string
  show "((w, c # acc, cs), (w, acc, c # cs)) \<in> measure (\<lambda>(w, acc, s). length s)" by simp
qed

text \<open>
  \<open>CONDITION_PATTERN\<close>, first alternative:
  \<^verbatim>\<open>^(?:output\.(\w+(?:\.\w+)*))\s*(==|!=|>=?|<=?|in|not in|contains)\s*(.+)$\<close>.
  The path is tried from its longest end to its shortest; after the white space the
  operators are tried in the order written; the rest, after white space, must be
  non-empty and free of line feeds. The text is always stripped when it is matched.
\<close>

definition valid_path :: "string \<Rightarrow> bool" where
  "valid_path s \<longleftrightarrow> list_all (\<lambda>seg. seg \<noteq> [] \<and> list_all is_word seg) (split_dots [] s)"

definition try_op :: "string \<Rightarrow> string \<Rightarrow> string option" where
  "try_op op_str rest =
     (if py_lower (take (length op_str) rest) = op_str
      then (let body = dropWhile is_space (drop (length op_str) rest)
            in if body \<noteq> [] \<and> CHR 0x0A \<notin> set body then Some body else None)
      else None)"

fun first_op :: "string list \<Rightarrow> string \<Rightarrow> (string \<times> string) option" where
  "first_op [] rest = None"
| "first_op (op_str # ops) rest =
     (case try_op op_str rest of Some body \<Rightarrow> Some (op_str, body) | None \<Rightarrow> first_op ops rest)"

definition pattern_ops :: "string list" where
  "pattern_ops = [''=='', ''!='', ''>='', ''>'', ''<='', ''<'', ''in'', ''not in'', ''contains'']"

fun first_some :: "('x \<Rightarrow> 'y option) \<Rightarrow> 'x list \<Rightarrow> 'y option" where
  "first_some f [] = None"
| "first_some f (x # xs) = (case f x of Some y \<Rightarrow> Some y | None \<Rightarrow> first_some f xs)"

definition match_pattern1 :: "string \<Rightarrow> (string \<times> string \<times> string) option" where
  "match_pattern1 text =
     (if py_lower (take 7 text) = ''output.''
      then (let s = drop 7 text
            in first_some
                 (\<lambda>n. case first_op pattern_ops (dropWhile is_space (drop n s)) of
                         Some (op_str, body) \<Rightarrow> Some (take n s, op_str, body)
                       | None \<Rightarrow> None)
                 (filter (\<lambda>n. valid_path (take n s)) (rev [1..<Suc (length s)])))
      else None)"

text \<open>
  Second alternative: \<^verbatim>\<open>^(.+?)\s+(in|not in)\s+(?:output\.(\w+(?:\.\w+)*))$\<close>. The value
  is the shortest beginning of the text, free of line feeds, after which the rest matches.
\<close>

definition try_in_op :: "string \<Rightarrow> string \<Rightarrow> string option" where
  "try_in_op op_str r1 =
     (if py_lower (take (length op_str) r1) = op_str
      then (let rest2 = drop (length op_str) r1
            in if rest2 \<noteq> [] \<and> is_space (hd rest2)
               then (let r2 = dropWhile is_space rest2
                     in if py_lower (take 7 r2) = ''output.'' \<and> valid_path (drop 7 r2)
                        then Some (drop 7 r2) else None)
               else None)
      else None)"

definition match_pattern2 :: "string \<Rightarrow> (string \<times> string \<times> string) option" where
  "match_pattern2 text =
     first_some
       (\<lambda>i. let g = take i text; rest = drop i text
            in if CHR 0x0A \<notin> set g \<and> rest \<noteq> [] \<and> is_space (hd rest)
               then (let r1 = dropWhile is_space rest
                     in case try_in_op ''in'' r1 of
                          Some path \<Rightarrow> Some (g, ''in'', path)
                        | None \<Rightarrow>
                            (case try_in_op ''not in'' r1 of
                               Some path \<Rightarrow> Some (g, ''not in'', path)
                             | None \<Rightarrow> None))
               else None)
       [1..<Suc (length text)]"

subsection \<open>Evaluation\<close>

text \<open>
  What the evaluator takes from the interpreter: \<^verbatim>\<open>json.loads\<close>, which returns a value
  or raises; \<^verbatim>\<open>int(s)\<close> and \<^verbatim>\<open>float(s)\<close>, which return a number or raise
  \<open>ValueError\<close> (\<open>None\<close> here); and the depth of recursion left before a
  \<open>RecursionError\<close>.
\<close>

record interp =
  json_loads :: "string \<Rightarrow> py_error + json"
  int_of_str :: "string \<Rightarrow> int option"
  float_of_str :: "string \<Rightarrow> real option"
  recursion_limit :: nat

fun get_field_value :: "json \<Rightarrow> string list \<Rightarrow> json" where
  "get_field_value v [] = v"
| "get_field_value (JDict d) (part # parts) = get_field_value (dict_get d part JNull) parts"
| "get_field_value v (part # parts) = JNull"

definition quoted_with :: "char \<Rightarrow> string \<Rightarrow> bool" where
  "quoted_with q v \<longleftrightarrow> v \<noteq> [] \<and> hd v = q \<and> last v = q"

definition parse_value :: "interp \<Rightarrow> string \<Rightarrow> py_error + json" where
  "parse_value ip value_str =
     (let v = py_strip value_str
      in if quoted_with (CHR 0x27) v \<or> quoted_with (CHR 0x22) v then Inr (JStr (butlast (tl v)))
         else if v \<noteq> [] \<and> hd v = CHR ''['' \<and> last v = CHR '']''
         then (case json_loads ip (replace_quotes v) of
                 Inr j \<Rightarrow> Inr j
               | Inl JSONDecodeError \<Rightarrow> Inr (JStr v)
               | Inl PyValueError \<Rightarrow> Inr (JStr v)
               | Inl e \<Rightarrow> Inl e)
         else if py_lower v = ''true'' then Inr (JBool True)
         else if py_lower v = ''false'' then Inr (JBool False)
         else if py_lower v = ''none'' \<or> py_lower v = ''null'' then Inr JNull
         else if CHR ''.'' \<in> set v
         then (case float_of_str ip v of Some x \<Rightarrow> Inr (JFloat x) | None \<Rightarrow> Inr (JStr v))
         else (case int_of_str ip v of Some n \<Rightarrow> Inr (JInt n) | None \<Rightarrow> Inr (JStr v)))"

text \<open>\<^verbatim>\<open>all(...)\<close> and \<^verbatim>\<open>any(...)\<close> over the parts, which stop at the first decisive part.\<close>

fun py_all :: "(py_error + bool) list \<Rightarrow> py_error + bool" where
  "py_all [] = Inr True"
| "py_all (r # rs) = (case r of Inl e \<Rightarrow> Inl e | Inr b \<Rightarrow> if b then py_all rs else Inr False)"

fun py_any :: "(py_error + bool) list \<Rightarrow> py_error + bool" where
  "py_any [] = Inr False"
| "py_any (r # rs) = (case r of Inl e \<Rightarrow> Inl e | Inr b \<Rightarrow> if b then Inr True else py_any rs)"

definition fallback_match :: "runtime \<Rightarrow> string \<Rightarrow> json \<Rightarrow> py_error + bool" where
  "fallback_match rt cond out =
     (case out of
        JDict d \<Rightarrow>
          Inr (is_sub (py_lower cond)
                 (py_lower (py_str rt (dict_get d ''text'' (dict_get d ''raw'' (JStr (py_str rt out)))))))
      | _ \<Rightarrow> Inl AttributeError)"

text \<open>
  \<open>_evaluate_condition\<close>. Its recursion is bounded by the interpreter's recursion limit:
  at depth 0 the call raises \<open>RecursionError\<close>.
\<close>

fun evaluate_condition :: "runtime \<Rightarrow> interp \<Rightarrow> nat \<Rightarrow> string \<Rightarrow> json \<Rightarrow> py_error + bool" where
  "evaluate_condition rt ip 0 cond out = Inl RecursionError"
| "evaluate_condition rt ip (Suc depth) cond out =
     (if is_sub '' and '' (py_lower cond)
      then py_all (map (\<lambda>p. evaluate_condition rt ip depth (py_strip p) out) (split_word ''and'' [] cond))
      else if is_sub '' or '' (py_lower cond)
      then py_any (map (\<lambda>p. evaluate_condition rt ip depth (py_strip p) out) (split_word ''or'' [] cond))
      else
        (case (case match_pattern1 cond of
                 Some (field_path, op_str, value_str) \<Rightarrow>
                   (case parse_value ip value_str of
                      Inl e \<Rightarrow> Some (Inl e)
                    | Inr compare_value \<Rightarrow>
                        (case operator_of op_str of
                           Some op_func \<Rightarrow>
                             Some (op_func (get_field_value out (split_dots [] field_path)) compare_value)
                         | None \<Rightarrow> None))
               | None \<Rightarrow>
                   (case match_pattern2 cond of
                      Some (value_str, op_str, field_path) \<Rightarrow>
                        (case parse_value ip value_str of
                           Inl e \<Rightarrow> Some (Inl e)
                         | Inr compare_value \<Rightarrow>
                             (case operator_of op_str of
                                Some op_func \<Rightarrow>
                                  Some (op_func compare_value (get_field_value out (split_dots [] field_path)))
                              | None \<Rightarrow> None))
                    | None \<Rightarrow> None)) of
           Some r \<Rightarrow> r
         | None \<Rightarrow> fallback_match rt cond out))"

text \<open>
  \<open>evaluate\<close>. A string output is parsed with \<^verbatim>\<open>json.loads\<close> under
  \<^verbatim>\<open>except (json.JSONDecodeError, TypeError)\<close>; the evaluation proper runs under
  \<^verbatim>\<open>except Exception\<close>.
\<close>

definition evaluate :: "runtime \<Rightarrow> interp \<Rightarrow> string \<Rightarrow> json \<Rightarrow> py_error + bool" where
  "evaluate rt ip cond output =
     (if cond = [] then Inr True
      else
        (case (case output of
                 JStr s \<Rightarrow>
                   (case json_loads ip s of
                      Inr (JDict d) \<Rightarrow> Inr (JDict d)
                    | Inr v \<Rightarrow> Inr (JStr s)
                    | Inl JSONDecodeError \<Rightarrow> Inr (JDict [(''text'', JStr s), (''raw'', JStr s)])
                    | Inl TypeError \<Rightarrow> Inr (JDict [(''text'', JStr s), (''raw'', JStr s)])
                    | Inl e \<Rightarrow> Inl e)
               | v \<Rightarrow> Inr v) of
           Inl e \<Rightarrow> Inl e
         | Inr out \<Rightarrow>
             (case evaluate_condition rt ip (recursion_limit ip) (py_strip cond) out of
                Inl e \<Rightarrow> Inr False
              | Inr b \<Rightarrow> Inr b)))"

section \<open>Workflow routing (src/loaders/workflows.py)\<close>

record ConditionalEdge =
  from_agent :: string
  to_agent :: string
  condition :: "string option"
  priority :: int

text \<open>
  \<open>_create_custom_workflow\<close> stores the edges sorted by
  \<^verbatim>\<open>sorted(..., key=lambda e: e.priority, reverse=True)\<close>: by descending priority, edges
  of equal priority in the order of their declaration.
\<close>

definition store_edges :: "ConditionalEdge list \<Rightarrow> ConditionalEdge list" where
  "store_edges edges = sort_key (\<lambda>e. - priority e) edges"

text \<open>\<^verbatim>\<open>not edge.condition\<close>: no condition, or an empty one.\<close>

definition unconditional :: "ConditionalEdge \<Rightarrow> bool" where
  "unconditional e \<longleftrightarrow> (case condition e of None \<Rightarrow> True | Some c \<Rightarrow> c = [])"

text \<open>The loop of \<open>evaluate_next_agent\<close>; \<open>None\<close> when it ends without returning.\<close>

fun first_route :: "runtime \<Rightarrow> interp \<Rightarrow> json \<Rightarrow> ConditionalEdge list \<Rightarrow> py_error + string option" where
  "first_route rt ip out [] = Inr None"
| "first_route rt ip out (e # es) =
     (if unconditional e then Inr (Some (to_agent e))
      else (case evaluate rt ip (the (condition e)) out of
              Inl err \<Rightarrow> Inl err
            | Inr b \<Rightarrow> if b then Inr (Some (to_agent e)) else first_route rt ip out es))"

definition evaluate_next_agent ::
  "runtime \<Rightarrow> interp \<Rightarrow> (string \<rightharpoonup> ConditionalEdge list) \<Rightarrow> string \<Rightarrow> string \<Rightarrow> json
     \<Rightarrow> py_error + string option" where
  "evaluate_next_agent rt ip workflow_edges workflow_name current_agent agent_output =
     (let edges = (case workflow_edges workflow_name of Some es \<Rightarrow> es | None \<Rightarrow> []);
          outgoing_edges = filter (\<lambda>e. from_agent e = current_agent) edges
      in if outgoing_edges = [] then Inr None
         else (case first_route rt ip agent_output outgoing_edges of
                 Inl err \<Rightarrow> Inl err
               | Inr (Some target) \<Rightarrow> Inr (Some target)
               | Inr None \<Rightarrow>
                   (case find unconditional outgoing_edges of
                      Some default_edge \<Rightarrow> Inr (Some (to_agent default_edge))
                    | None \<Rightarrow> Inr None)))"

section \<open>Concrete inputs\<close>

definition demo_limit_config :: RateLimitConfig where
  "demo_limit_config =
     \<lparr>enabled = True, requests_per_minute = 20, requests_per_hour = 10, tokens_per_minute = 100,
      tokens_per_hour = 1000, max_concurrent_requests = 3, per_user = True, burst_multiplier = 3 / 2\<rparr>"

definition demo_validator :: InputValidator where
  "demo_validator =
     \<lparr>vconfig = \<lparr>max_question_length = 5, max_tool_param_length = 3,
                  block_prompt_injection = True, block_pii = False, redact_pii = False\<rparr>,
      injection_patterns = [\<lparr>search = (\<lambda>t. if t = ''jailbreak'' then Some t else None),
                             sub = (\<lambda>r t. t)\<rparr>],
      pii_patterns = [],
      blocked_patterns = []\<rparr>"

text \<open>Ten recorded requests of one user at time 1, on a fresh limiter.\<close>

definition demo_busy :: RateLimiter where
  "demo_busy =
     foldl (\<lambda>s n. record_request s (Some ''alice'') 1 1) (init_limiter demo_limit_config 0) [0..<10]"

text \<open>
  One request of 140 tokens, and one of 150, recorded for a user at time 1 on a fresh
  limiter: the ceiling of the token check is \<open>int(100 * 1.5) = 150\<close>.
\<close>

definition demo_tokens_near :: RateLimiter where
  "demo_tokens_near = record_request (init_limiter demo_limit_config 0) (Some ''bob'') 140 1"

definition demo_tokens_full :: RateLimiter where
  "demo_tokens_full = record_request (init_limiter demo_limit_config 0) (Some ''bob'') 150 1"

text \<open>
  A limit whose product with the multiplier is not whole, \<open>3 * 1.5 = 4.5\<close>; four
  requests recorded at time 1; then three slots taken, the concurrency limit.
\<close>

definition demo_odd_config :: RateLimitConfig where
  "demo_odd_config =
     \<lparr>enabled = True, requests_per_minute = 3, requests_per_hour = 100, tokens_per_minute = 100,
      tokens_per_hour = 1000, max_concurrent_requests = 3, per_user = True, burst_multiplier = 3 / 2\<rparr>"

definition demo_odd :: RateLimiter where
  "demo_odd =
     foldl (\<lambda>s n. record_request s (Some ''carol'') 1 1) (init_limiter demo_odd_config 0) [0..<4]"

definition demo_odd_saturated :: RateLimiter where
  "demo_odd_saturated =
     run_slot_ops demo_odd [Acquire (Some ''carol''), Acquire (Some ''carol''), Acquire (Some ''carol'')]"

text \<open>The limiter switched off, with a per-minute limit of no request at all.\<close>

definition demo_disabled :: RateLimiter where
  "demo_disabled =
     init_limiter (demo_limit_config\<lparr>enabled := False, requests_per_minute := 0\<rparr>) 0"

text \<open>
  A wrapped function that always raises and one that always returns; the world counts the
  invocations. Three failing calls, as in the scenario with threshold 3 and timeout 0.1 s.
\<close>

definition demo_fail :: "nat \<Rightarrow> (string + string) \<times> nat" where
  "demo_fail w = (Inl ''boom'', Suc w)"

definition demo_ok :: "nat \<Rightarrow> (string + string) \<times> nat" where
  "demo_ok w = (Inr ''rows'', Suc w)"

definition demo_calls :: "((nat \<Rightarrow> (string + string) \<times> nat) \<times> real \<times> real) list" where
  "demo_calls = [(demo_fail, 0, 1), (demo_fail, 2, 3), (demo_fail, 4, 5)]"

text \<open>
  A server that answers every call with 401, and a token provider whose refresh succeeds;
  the world counts the calls made.
\<close>

definition demo_retry_config :: RetryConfig where
  "demo_retry_config = \<lparr>max_retries = 3, retry_backoff_base = 1, retry_backoff_max = 30\<rparr>"

definition always_401 :: "nat \<Rightarrow> (exn + string) \<times> nat" where
  "always_401 w = (Inl (HTTPStatusError 401 Absent), Suc w)"

definition refresh_ok :: "nat \<Rightarrow> exn option \<times> nat" where
  "refresh_ok w = (None, w)"

text \<open>A token provider whose refresh raises.\<close>

definition refresh_fails :: "nat \<Rightarrow> exn option \<times> nat" where
  "refresh_fails w = (Some (OtherException ''token provider unavailable''), w)"

text \<open>
  An agent whose threads are named by strings and whose world counts what was asked of it:
  a new thread adds 1, a deserialization adds 100. A payload with a message of role
  \<open>admin\<close>, and one whose message content is a number.
\<close>

definition demo_runtime :: runtime where
  "demo_runtime = \<lparr>str_of = (\<lambda>v. ''?''), isoformat = (\<lambda>t. ''iso''), fromisoformat = (\<lambda>s. Some 0)\<rparr>"

definition demo_agent :: "(string, nat) agent" where
  "demo_agent =
     \<lparr>get_new_thread = (\<lambda>a. (''new thread'', a + 1)),
      deserialize_thread = (\<lambda>data a. (Inr ''deserialized thread'', a + 100)),
      run = (\<lambda>prompt th a. (Inr (ResultStr ''a summary''), a + 10000)),
      has_deserialize_thread = True\<rparr>"

definition demo_manager :: "(string, nat) manager" where
  "demo_manager =
     \<lparr>sessions = Map.empty, cache_store = Map.empty, cache_accepts = True,
      persistence_store = Map.empty, persistence_accepts = True, persistence_enabled = True,
      agent_world = 0\<rparr>"

definition bad_role_payload :: json where
  "bad_role_payload =
     JDict [(''messages'', JList [JDict [(''role'', JStr ''user''), (''content'', JStr ''hi'')],
                                  JDict [(''role'', JStr ''admin''), (''content'', JStr ''rm'')]])]"

definition bad_content_payload :: json where
  "bad_content_payload =
     JDict [(''messages'', JList [JDict [(''role'', JStr ''user''), (''content'', JInt 7)]])]"

text \<open>A stored thread blob with two messages, and a manager whose object store holds it.\<close>

definition demo_blob :: dict where
  "demo_blob =
     [(''messages'', JList [JDict [(''role'', JStr ''user''), (''content'', JStr ''hi'')],
                            JDict [(''role'', JStr ''assistant''), (''content'', JStr ''hello'')]]),
      (''_created_at'', JStr ''t0''),
      (''_updated_at'', JStr ''t1''),
      (''_merge_count'', JInt 2)]"

definition demo_stored_manager :: "(string, nat) manager" where
  "demo_stored_manager = demo_manager\<lparr>persistence_store := [''c1'' \<mapsto> JDict demo_blob]\<rparr>"

text \<open>
  A thread named \<open>long thread\<close> whose two messages hold 4000 characters each: about 2000
  tokens, over a budget of 100, with two recent messages to keep.
\<close>

definition demo_summarization :: SummarizationConfig where
  "demo_summarization =
     \<lparr>summarization_enabled = True, max_tokens = 100, summary_target_tokens = 50,
      recent_messages_to_keep = 2\<rparr>"

definition demo_messages :: "json list" where
  "demo_messages =
     [JDict [(''role'', JStr ''user''), (''content'', JStr (replicate 4000 CHR ''a''))],
      JDict [(''role'', JStr ''assistant''), (''content'', JStr (replicate 4000 CHR ''b''))]]"

definition demo_thread_ops :: "string thread_ops" where
  "demo_thread_ops =
     \<lparr>serialize = (\<lambda>th. Inr (JDict [(''messages'', JList demo_messages)])),
      messages_of = (\<lambda>th. Some (map PlainMessage demo_messages))\<rparr>"

definition demo_session_manager :: "(string, nat) manager" where
  "demo_session_manager =
     demo_manager\<lparr>sessions := [''c1'' \<mapsto>
       \<lparr>chat_id = ''c1'', thread = ''long thread'', created_at = 0, last_accessed = 0,
        message_count = JInt 2, persisted = JBool False, summarized = False, summary_count = 0,
        estimated_tokens = 0, mcp_sessions = Map.empty\<rparr>]\<rparr>"

text \<open>
  An interpreter for the examples. Its \<^verbatim>\<open>json.loads\<close> stands for CPython's on the
  inputs used here: a numeral of more than 4300 digits, the first not a zero, raises
  \<open>ValueError\<close> (the limit on integer string conversion of CPython 3.11), the object
  text below is parsed, anything else is reported as no JSON document.
\<close>

definition is_digit :: "char \<Rightarrow> bool" where
  "is_digit c \<longleftrightarrow> (48::nat) \<le> of_char c \<and> (of_char c :: nat) \<le> 57"

definition technical_json_text :: string where
  "technical_json_text =
     ''{'' @ [CHR 0x22] @ ''category'' @ [CHR 0x22] @ '': '' @ [CHR 0x22] @ ''technical'' @ [CHR 0x22] @ ''}''"

definition demo_interp :: interp where
  "demo_interp =
     \<lparr>json_loads = (\<lambda>s. if length s > 4300 \<and> list_all is_digit s \<and> hd s \<noteq> CHR ''0''
                         then Inl PyValueError
                         else if s = technical_json_text
                         then Inr (JDict [(''category'', JStr ''technical'')])
                         else Inl JSONDecodeError),
      int_of_str = (\<lambda>s. if s = ''3'' then Some 3 else None),
      float_of_str = (\<lambda>s. if s = ''0.8'' then Some (8 / 10) else None),
      recursion_limit = 1000\<rparr>"

definition technical_condition :: string where
  "technical_condition = ''output.category == '' @ [CHR 0x27] @ ''technical'' @ [CHR 0x27]"

text \<open>
  A workflow whose fallback edge is declared before its conditional edge, both with the
  default priority 0, as the edges are stored when the workflow is created.
\<close>

definition demo_edges :: "ConditionalEdge list" where
  "demo_edges =
     store_edges
       [\<lparr>from_agent = ''Triage'', to_agent = ''Default'', condition = None, priority = 0\<rparr>,
        \<lparr>from_agent = ''Triage'', to_agent = ''TechSupport'',
         condition = Some technical_condition, priority = 0\<rparr>]"

text \<open>An agent output of 5000 digits.\<close>

definition digits_output :: string where
  "digits_output = replicate 5000 CHR ''1''"

section \<open>Properties\<close>

lemma apply_slot_op_nonneg: "counters_nonneg s \<Longrightarrow> counters_nonneg (apply_slot_op s x)"
  by (cases x)
     (auto simp: counters_nonneg_def acquire_concurrent_slot_def release_concurrent_slot_def
                 concurrent_of_def Let_def split: option.splits)

lemma run_slot_ops_nonneg: "counters_nonneg s \<Longrightarrow> counters_nonneg (run_slot_ops s ops)"
  unfolding run_slot_ops_def
  by (induction ops arbitrary: s) (simp_all add: apply_slot_op_nonneg)

lemma init_limiter_nonneg: "counters_nonneg (init_limiter cfg t)"
  by (simp add: counters_nonneg_def init_limiter_def concurrent_of_def)


text \<open>
  C9. Whatever sequence of \<open>acquire_concurrent_slot\<close> and \<open>release_concurrent_slot\<close>
  calls is run on a fresh limiter, for whatever identities, no concurrency counter (per
  identity or global) is negative afterwards; and releasing a slot for an identity whose
  counter reads zero (or, with per-user limiting off, when the global counter is zero)
  leaves that counter at zero.
\<close>

theorem concurrent_counter_never_negative:
  "0 \<le> concurrent_of (run_slot_ops (init_limiter cfg t) ops) k
   \<and> 0 \<le> global_concurrent (run_slot_ops (init_limiter cfg t) ops)
   \<and> (concurrent_of s (identifier_of u) = 0 \<longrightarrow>
        concurrent_of (release_concurrent_slot s u) (identifier_of u) = 0)
   \<and> (global_concurrent s = 0 \<longrightarrow> global_concurrent (release_concurrent_slot s u) = 0)"
proof -
  have inv: "counters_nonneg (run_slot_ops (init_limiter cfg t) ops)"
    by (rule run_slot_ops_nonneg [OF init_limiter_nonneg])
  have rel: "concurrent_of s (identifier_of u) = 0 \<longrightarrow>
        concurrent_of (release_concurrent_slot s u) (identifier_of u) = 0"
    by (simp add: release_concurrent_slot_def concurrent_of_def Let_def)
  have glob: "global_concurrent s = 0 \<longrightarrow> global_concurrent (release_concurrent_slot s u) = 0"
    by (simp add: release_concurrent_slot_def Let_def)
  from inv rel glob show ?thesis
    by (simp add: counters_nonneg_def)
qed

theorem concurrent_counter_never_negative_witness:
  "concurrent_of (init_limiter demo_limit_config 0) (identifier_of (Some ''alice'')) = 0
   \<and> concurrent_of (release_concurrent_slot (init_limiter demo_limit_config 0) (Some ''alice''))
        (identifier_of (Some ''alice'')) = 0
   \<and> global_concurrent (init_limiter demo_limit_config 0) = 0
   \<and> global_concurrent (release_concurrent_slot (init_limiter demo_limit_config 0) (Some ''alice'')) = 0
   \<and> 0 \<le> concurrent_of (run_slot_ops (init_limiter demo_limit_config 0)
                [Release (Some ''alice''), Release (Some ''alice''), Acquire (Some ''alice'')]) ''alice''"
  using concurrent_counter_never_negative
          [of demo_limit_config 0 "[Release (Some ''alice''), Release (Some ''alice''), Acquire (Some ''alice'')]"
              "''alice''" "init_limiter demo_limit_config 0" "Some ''alice''"]
  by (simp add: init_limiter_def concurrent_of_def)

text \<open>
  C10. \<open>validate\<close> fails with validation type \<open>length\<close> exactly when the text is
  strictly longer than the cap of its context (\<open>max_question_length\<close> for the context
  \<open>question\<close>, \<open>max_tool_param_length\<close> for any other); a text of exactly the cap's
  length does not fail the length check.
\<close>

theorem validate_length_iff:
  "((\<exists>d. validate v text context = Inl (ValidationError ''length'' d))
      \<longleftrightarrow> int (length text) >
           (if context = ''question'' then max_question_length (vconfig v)
            else max_tool_param_length (vconfig v)))
   \<and> (int (length text) =
          (if context = ''question'' then max_question_length (vconfig v)
           else max_tool_param_length (vconfig v))
        \<longrightarrow> (\<forall>e. validate v text context = Inl e \<longrightarrow> validation_type e \<noteq> ''length''))"
  by (auto simp: validate_def Let_def)

theorem validate_length_iff_witness:
  "int (length ''abcde'') = max_question_length (vconfig demo_validator)
   \<and> validate demo_validator ''abcde'' ''question'' = Inr ''abcde''
   \<and> int (length ''abc'') = max_tool_param_length (vconfig demo_validator)
   \<and> validate demo_validator ''abc'' ''tool_param'' = Inr ''abc''
   \<and> (\<exists>d. validate demo_validator ''abcd'' ''tool_param'' = Inl (ValidationError ''length'' d))"
  using validate_length_iff [of demo_validator "''abcde''" "''question''"]
        validate_length_iff [of demo_validator "''abc''" "''tool_param''"]
        validate_length_iff [of demo_validator "''abcd''" "''tool_param''"]
  by (simp add: demo_validator_def validate_def Let_def)

lemma setters_config [simp]:
  "config (set_minute_state s i v) = config s"
  "config (set_hour_state s i v) = config s"
  "config (cleanup_windows s now) = config s"
  by (simp_all add: set_minute_state_def set_hour_state_def cleanup_windows_def)

lemma state_of_setters [simp]:
  "minute_state_of (set_minute_state s i v) i now = v"
  "hour_state_of (set_minute_state s i v) i now = hour_state_of s i now"
  "minute_state_of (set_hour_state s i v) i now = minute_state_of s i now"
  by (simp_all add: set_minute_state_def set_hour_state_def minute_state_of_def hour_state_of_def)

lemma hour_state_of_set_hour_state [simp]:
  "hour_state_of (set_hour_state s i v) i now = v"
  by (simp add: set_hour_state_def hour_state_of_def)

lemma check_concurrent_limit_fst:
  "fst (check_concurrent_limit s i) =
     (if (if per_user (config s) then concurrent_of s i else global_concurrent s)
           \<ge> max_concurrent_requests (config s)
      then Inl (RateLimitExceeded ''concurrent'' (Some 1)) else Inr ())"
  by (simp add: check_concurrent_limit_def Let_def)

lemma check_concurrent_limit_snd [simp]:
  "config (snd (check_concurrent_limit s i)) = config s"
  "minute_state_of (snd (check_concurrent_limit s i)) i now = minute_state_of s i now"
  "hour_state_of (snd (check_concurrent_limit s i)) i now = hour_state_of s i now"
  by (simp_all add: check_concurrent_limit_def Let_def minute_state_of_def hour_state_of_def)

lemma check_request_limit_fst:
  "fst (check_request_limit s i now) =
     (case minute_ceiling (config s) of
        None \<Rightarrow> Inl OverflowError
      | Some c \<Rightarrow>
          if count (roll_window (minute_state_of s i now) now 60) \<ge> c
          then Inl (RateLimitExceeded ''requests_per_minute''
                 (Some (max 0 (60 - (now - window_start (roll_window (minute_state_of s i now) now 60))))))
          else if count (roll_window (hour_state_of s i now) now 3600) \<ge> requests_per_hour (config s)
          then Inl (RateLimitExceeded ''requests_per_hour''
                 (Some (max 0 (3600 - (now - window_start (roll_window (hour_state_of s i now) now 3600))))))
          else Inr ())"
  by (simp add: check_request_limit_def Let_def minute_ceiling_def split: option.splits)

lemma check_request_limit_snd [simp]:
  "config (snd (check_request_limit s i now)) = config s"
  "minute_state_of (snd (check_request_limit s i now)) i now = roll_window (minute_state_of s i now) now 60"
  by (simp_all add: check_request_limit_def Let_def split: option.splits)

lemma check_token_limit_fst:
  "fst (check_token_limit s i toks now) =
     (case token_ceiling (config s) of
        None \<Rightarrow> Inl OverflowError
      | Some c \<Rightarrow>
          if tokens (minute_state_of s i now) + toks > c
          then Inl (RateLimitExceeded ''tokens_per_minute''
                 (Some (max 0 (60 - (now - window_start (minute_state_of s i now))))))
          else Inr ())"
  by (simp add: check_token_limit_def Let_def token_ceiling_def split: option.splits)

lemma concurrent_of_cleanup [simp]:
  "concurrent_of (cleanup_windows s now) i = concurrent_of s i"
  "global_concurrent (cleanup_windows s now) = global_concurrent s"
  by (simp_all add: cleanup_windows_def concurrent_of_def split: option.splits)

lemma check_limit_fst:
  "enabled (config s) \<Longrightarrow>
   fst (check_limit s u est now) =
     (if concurrent_seen s u \<ge> max_concurrent_requests (config s)
      then Inl (RateLimitExceeded ''concurrent'' (Some 1))
      else case minute_ceiling (config s) of
        None \<Rightarrow> Inl OverflowError
      | Some c \<Rightarrow>
          if count (minute_seen s u now) \<ge> c
          then Inl (RateLimitExceeded ''requests_per_minute''
                 (Some (max 0 (60 - (now - window_start (minute_seen s u now))))))
          else if count (hour_seen s u now) \<ge> requests_per_hour (config s)
          then Inl (RateLimitExceeded ''requests_per_hour''
                 (Some (max 0 (3600 - (now - window_start (hour_seen s u now))))))
          else if est > 0
          then (case token_ceiling (config s) of
                  None \<Rightarrow> Inl OverflowError
                | Some tc \<Rightarrow>
                    if tokens (minute_seen s u now) + est > tc
                    then Inl (RateLimitExceeded ''tokens_per_minute''
                           (Some (max 0 (60 - (now - window_start (minute_seen s u now))))))
                    else Inr True)
          else Inr True)"
proof -
  assume en: "enabled (config s)"
  define i where "i = identifier_of u"
  define s1 where "s1 = cleanup_windows s now"
  define r2 where "r2 = fst (check_concurrent_limit s1 i)"
  define s2 where "s2 = snd (check_concurrent_limit s1 i)"
  define r3 where "r3 = fst (check_request_limit s2 i now)"
  define s3 where "s3 = snd (check_request_limit s2 i now)"
  define r4 where "r4 = fst (check_token_limit s3 i est now)"
  have r2: "r2 = (if concurrent_seen s u \<ge> max_concurrent_requests (config s)
      then Inl (RateLimitExceeded ''concurrent'' (Some 1)) else Inr ())"
    by (simp add: r2_def check_concurrent_limit_fst s1_def i_def concurrent_seen_def)
  have s2: "config s2 = config s" "minute_state_of s2 i now = minute_state_of s1 i now"
       "hour_state_of s2 i now = hour_state_of s1 i now"
    by (simp_all add: s2_def s1_def)
  have r3: "r3 = (case minute_ceiling (config s) of
        None \<Rightarrow> Inl OverflowError
      | Some c \<Rightarrow>
          if count (minute_seen s u now) \<ge> c
          then Inl (RateLimitExceeded ''requests_per_minute''
                 (Some (max 0 (60 - (now - window_start (minute_seen s u now))))))
          else if count (hour_seen s u now) \<ge> requests_per_hour (config s)
          then Inl (RateLimitExceeded ''requests_per_hour''
                 (Some (max 0 (3600 - (now - window_start (hour_seen s u now))))))
          else Inr ())"
    by (simp add: r3_def check_request_limit_fst s2 minute_seen_def hour_seen_def
          s1_def [symmetric] i_def [symmetric] split: option.splits)
  have s3: "config s3 = config s" "minute_state_of s3 i now = minute_seen s u now"
    by (simp_all add: s3_def s2 minute_seen_def s1_def [symmetric] i_def [symmetric])
  have r4: "r4 = (case token_ceiling (config s) of
        None \<Rightarrow> Inl OverflowError
      | Some tc \<Rightarrow>
          if tokens (minute_seen s u now) + est > tc
          then Inl (RateLimitExceeded ''tokens_per_minute''
                 (Some (max 0 (60 - (now - window_start (minute_seen s u now))))))
          else Inr ())"
    by (simp add: r4_def check_token_limit_fst s3 split: option.splits)
  have "fst (check_limit s u est now) =
      (case r2 of Inl e \<Rightarrow> Inl e
       | Inr x \<Rightarrow> (case r3 of Inl e \<Rightarrow> Inl e
          | Inr y \<Rightarrow> if est > 0 then (case r4 of Inl e \<Rightarrow> Inl e | Inr z \<Rightarrow> Inr True) else Inr True))"
    using en
    by (simp add: check_limit_def Let_def r2_def s2_def r3_def s3_def r4_def s1_def i_def
             split: sum.splits prod.splits)
  then show ?thesis
    by (simp add: r2 r3 r4 split: option.splits)
qed

lemma record_request_windows:
  assumes "enabled (config s)"
  shows "minute_state_of (record_request s u tks now) (identifier_of u) t =
           (minute_state_of s (identifier_of u) now)
             \<lparr>count := count (minute_state_of s (identifier_of u) now) + 1,
              tokens := tokens (minute_state_of s (identifier_of u) now) + tks\<rparr>"
    and "hour_state_of (record_request s u tks now) (identifier_of u) t =
           (hour_state_of s (identifier_of u) now)
             \<lparr>count := count (hour_state_of s (identifier_of u) now) + 1,
              tokens := tokens (hour_state_of s (identifier_of u) now) + tks\<rparr>"
  using assms by (simp_all add: record_request_def Let_def)

lemma bit_length_numeral:
  "bit_length (numeral n) = Suc (bit_length (numeral n div 2))"
  "bit_length 0 = 0"
  "bit_length (Suc 0) = 1"
  by (simp_all add: bit_length.simps [of "numeral n"] bit_length.simps [of 0]
        bit_length.simps [of "Suc 0"])

lemma demo_ceilings:
  "minute_ceiling demo_limit_config = Some 30"
  "token_ceiling demo_limit_config = Some 150"
  "minute_ceiling demo_odd_config = Some 4"
  "token_ceiling demo_odd_config = Some 150"
  by (simp_all add: minute_ceiling_def token_ceiling_def demo_limit_config_def demo_odd_config_def
        burst_ceiling_def round_double_def exponent_of_def pow2_def round_half_even_def py_int_def
        bit_length_numeral Let_def)

lemma demo_limit_fields:
  "enabled demo_limit_config" "requests_per_minute demo_limit_config = 20"
  "requests_per_hour demo_limit_config = 10" "tokens_per_minute demo_limit_config = 100"
  "max_concurrent_requests demo_limit_config = 3" "per_user demo_limit_config"
  "burst_multiplier demo_limit_config = 3 / 2"
  "enabled demo_odd_config" "requests_per_minute demo_odd_config = 3"
  "requests_per_hour demo_odd_config = 100" "tokens_per_minute demo_odd_config = 100"
  "max_concurrent_requests demo_odd_config = 3" "per_user demo_odd_config"
  "burst_multiplier demo_odd_config = 3 / 2"
  by (simp_all add: demo_limit_config_def demo_odd_config_def)

lemma demo_busy_windows:
  "user_minute_state demo_busy ''alice'' = Some \<lparr>count = 10, tokens = 10, window_start = 1, concurrent = 0\<rparr>"
  "user_hour_state demo_busy ''alice'' = Some \<lparr>count = 10, tokens = 10, window_start = 1, concurrent = 0\<rparr>"
  "concurrent_requests demo_busy ''alice'' = None"
  "config demo_busy = demo_limit_config"
  by (simp_all add: demo_busy_def record_request_def init_limiter_def demo_limit_config_def
        Let_def identifier_of_def minute_state_of_def hour_state_of_def set_minute_state_def
        set_hour_state_def new_state_def upt_rec)

lemma demo_tokens_windows:
  "user_minute_state demo_tokens_near ''bob'' = Some \<lparr>count = 1, tokens = 140, window_start = 1, concurrent = 0\<rparr>"
  "user_hour_state demo_tokens_near ''bob'' = Some \<lparr>count = 1, tokens = 140, window_start = 1, concurrent = 0\<rparr>"
  "concurrent_requests demo_tokens_near ''bob'' = None"
  "config demo_tokens_near = demo_limit_config"
  "user_minute_state demo_tokens_full ''bob'' = Some \<lparr>count = 1, tokens = 150, window_start = 1, concurrent = 0\<rparr>"
  "user_hour_state demo_tokens_full ''bob'' = Some \<lparr>count = 1, tokens = 150, window_start = 1, concurrent = 0\<rparr>"
  "concurrent_requests demo_tokens_full ''bob'' = None"
  "config demo_tokens_full = demo_limit_config"
  by (simp_all add: demo_tokens_near_def demo_tokens_full_def record_request_def init_limiter_def
        demo_limit_config_def Let_def identifier_of_def minute_state_of_def hour_state_of_def
        set_minute_state_def set_hour_state_def new_state_def)

lemma demo_odd_windows:
  "user_minute_state demo_odd ''carol'' = Some \<lparr>count = 4, tokens = 4, window_start = 1, concurrent = 0\<rparr>"
  "user_hour_state demo_odd ''carol'' = Some \<lparr>count = 4, tokens = 4, window_start = 1, concurrent = 0\<rparr>"
  "concurrent_requests demo_odd ''carol'' = None"
  "config demo_odd = demo_odd_config"
  by (simp_all add: demo_odd_def record_request_def init_limiter_def demo_odd_config_def
        Let_def identifier_of_def minute_state_of_def hour_state_of_def set_minute_state_def
        set_hour_state_def new_state_def upt_rec)

lemma demo_odd_saturated_windows:
  "user_minute_state demo_odd_saturated ''carol'' = Some \<lparr>count = 4, tokens = 4, window_start = 1, concurrent = 0\<rparr>"
  "user_hour_state demo_odd_saturated ''carol'' = Some \<lparr>count = 4, tokens = 4, window_start = 1, concurrent = 0\<rparr>"
  "concurrent_requests demo_odd_saturated ''carol'' = Some 3"
  "config demo_odd_saturated = demo_odd_config"
  by (simp_all add: demo_odd_saturated_def run_slot_ops_def acquire_concurrent_slot_def
        demo_odd_windows demo_odd_config_def identifier_of_def concurrent_of_def Let_def)

lemmas demo_seen_defs =
  minute_seen_def hour_seen_def concurrent_seen_def minute_state_of_def hour_state_of_def
  cleanup_windows_def roll_window_def identifier_of_def concurrent_of_def


text \<open>
  C2 (as amended). With the limiter switched off \<open>check_limit\<close> admits every request and
  \<open>record_request\<close> does nothing. With the limiter enabled, for every identity:
  \<open>check_limit\<close> rejects for \<open>requests_per_minute\<close> exactly when the concurrency check
  passes and the minute window's count has reached
  \<open>int(requests_per_minute * burst_multiplier)\<close>, the double product truncated toward
  zero; for \<open>requests_per_hour\<close> exactly when the earlier checks pass and the hour
  window's count has reached the nominal \<open>requests_per_hour\<close> (no burst allowance); for
  \<open>tokens_per_minute\<close> exactly when the earlier checks pass, the estimate is positive and
  the window's tokens plus the estimate strictly exceed
  \<open>int(tokens_per_minute * burst_multiplier)\<close>. \<open>record_request\<close> compares with no limit:
  it adds one request and the tokens used to the minute window and to the hour window of
  the identity. The nominal limits are what \<open>get_usage\<close> reports.
\<close>

theorem check_limit_ceilings:
  "(\<not> enabled (config s) \<longrightarrow>
      check_limit s u est now = (Inr True, s) \<and> record_request s u tks now = s)
   \<and> (enabled (config s) \<longrightarrow>
      ((\<exists>r. fst (check_limit s u est now) = Inl (RateLimitExceeded ''requests_per_minute'' r))
        \<longleftrightarrow> concurrent_seen s u < max_concurrent_requests (config s)
            \<and> (\<exists>c. minute_ceiling (config s) = Some c \<and> count (minute_seen s u now) \<ge> c))
      \<and> ((\<exists>r. fst (check_limit s u est now) = Inl (RateLimitExceeded ''requests_per_hour'' r))
        \<longleftrightarrow> concurrent_seen s u < max_concurrent_requests (config s)
            \<and> (\<exists>c. minute_ceiling (config s) = Some c \<and> count (minute_seen s u now) < c)
            \<and> count (hour_seen s u now) \<ge> requests_per_hour (config s))
      \<and> ((\<exists>r. fst (check_limit s u est now) = Inl (RateLimitExceeded ''tokens_per_minute'' r))
        \<longleftrightarrow> concurrent_seen s u < max_concurrent_requests (config s)
            \<and> (\<exists>c. minute_ceiling (config s) = Some c \<and> count (minute_seen s u now) < c)
            \<and> count (hour_seen s u now) < requests_per_hour (config s)
            \<and> est > 0
            \<and> (\<exists>c. token_ceiling (config s) = Some c \<and> tokens (minute_seen s u now) + est > c))
      \<and> minute_state_of (record_request s u tks now) (identifier_of u) now
          = (minute_state_of s (identifier_of u) now)
              \<lparr>count := count (minute_state_of s (identifier_of u) now) + 1,
               tokens := tokens (minute_state_of s (identifier_of u) now) + tks\<rparr>
      \<and> hour_state_of (record_request s u tks now) (identifier_of u) now
          = (hour_state_of s (identifier_of u) now)
              \<lparr>count := count (hour_state_of s (identifier_of u) now) + 1,
               tokens := tokens (hour_state_of s (identifier_of u) now) + tks\<rparr>)
   \<and> limit (requests_minute (get_usage s u now)) = requests_per_minute (config s)
   \<and> limit (requests_hour (get_usage s u now)) = requests_per_hour (config s)
   \<and> limit (tokens_minute (get_usage s u now)) = tokens_per_minute (config s)"
proof -
  have off: "\<not> enabled (config s) \<longrightarrow>
      check_limit s u est now = (Inr True, s) \<and> record_request s u tks now = s"
    by (simp add: check_limit_def record_request_def)
  have usage: "limit (requests_minute (get_usage s u now)) = requests_per_minute (config s)
     \<and> limit (requests_hour (get_usage s u now)) = requests_per_hour (config s)
     \<and> limit (tokens_minute (get_usage s u now)) = tokens_per_minute (config s)"
    by (simp add: get_usage_def Let_def)
  {
    assume en: "enabled (config s)"
    note f = check_limit_fst [OF en, of u est now]
    have a: "(\<exists>r. fst (check_limit s u est now) = Inl (RateLimitExceeded ''requests_per_minute'' r))
        \<longleftrightarrow> concurrent_seen s u < max_concurrent_requests (config s)
            \<and> (\<exists>c. minute_ceiling (config s) = Some c \<and> count (minute_seen s u now) \<ge> c)"
      by (simp add: f split: option.splits)
    have b: "(\<exists>r. fst (check_limit s u est now) = Inl (RateLimitExceeded ''requests_per_hour'' r))
        \<longleftrightarrow> concurrent_seen s u < max_concurrent_requests (config s)
            \<and> (\<exists>c. minute_ceiling (config s) = Some c \<and> count (minute_seen s u now) < c)
            \<and> count (hour_seen s u now) \<ge> requests_per_hour (config s)"
      by (simp add: f split: option.splits)
    have c: "(\<exists>r. fst (check_limit s u est now) = Inl (RateLimitExceeded ''tokens_per_minute'' r))
        \<longleftrightarrow> concurrent_seen s u < max_concurrent_requests (config s)
            \<and> (\<exists>c. minute_ceiling (config s) = Some c \<and> count (minute_seen s u now) < c)
            \<and> count (hour_seen s u now) < requests_per_hour (config s)
            \<and> est > 0
            \<and> (\<exists>c. token_ceiling (config s) = Some c \<and> tokens (minute_seen s u now) + est > c)"
      by (simp add: f split: option.splits)
    note a b c record_request_windows [OF en, of u tks now now]
  }
  with off usage show ?thesis by blast
qed

theorem check_limit_ceilings_witness:
  "enabled (config demo_busy) \<and> \<not> enabled (config demo_disabled)
   \<and> check_limit demo_disabled (Some ''alice'') 1000 2 = (Inr True, demo_disabled)
   \<and> record_request demo_disabled (Some ''alice'') 1000 2 = demo_disabled
   \<and> (\<exists>r. fst (check_limit demo_busy (Some ''alice'') 0 2) = Inl (RateLimitExceeded ''requests_per_hour'' r))
   \<and> \<not> (\<exists>r. fst (check_limit demo_busy (Some ''alice'') 0 2) = Inl (RateLimitExceeded ''requests_per_minute'' r))
   \<and> minute_ceiling (config demo_busy) = Some 30
   \<and> minute_state_of (record_request demo_busy (Some ''alice'') 7 2) ''alice'' 2
        = \<lparr>count = 11, tokens = 17, window_start = 1, concurrent = 0\<rparr>
   \<and> hour_state_of (record_request demo_busy (Some ''alice'') 7 2) ''alice'' 2
        = \<lparr>count = 11, tokens = 17, window_start = 1, concurrent = 0\<rparr>
   \<and> limit (requests_minute (get_usage demo_busy (Some ''alice'') 2)) = 20"
  using check_limit_ceilings [of demo_busy "Some ''alice''" 0 2 7]
        check_limit_ceilings [of demo_disabled "Some ''alice''" 1000 2 1000]
  by (simp add: demo_busy_windows demo_ceilings demo_limit_fields demo_seen_defs
        demo_disabled_def init_limiter_def)

text \<open>
  C2 as stated fails, on the limiter with \<open>burst_multiplier = 1.5\<close>. With
  \<open>requests_per_hour = 10\<close> the eleventh request of the hour is rejected for
  \<open>requests_per_hour\<close> although the hour window's count, 10, has not reached
  \<open>10 * 1.5 = 15\<close>. With \<open>tokens_per_minute = 100\<close>, 140 tokens used and 10 estimated,
  the request is admitted although the sum has reached \<open>100 * 1.5 = 150\<close>; so is a
  request with no estimate after 150 tokens. With \<open>requests_per_minute = 3\<close> the fifth
  request of the minute is rejected for \<open>requests_per_minute\<close> although the count, 4, has
  not reached \<open>3 * 1.5 = 4.5\<close>; and with three requests in flight it is rejected for
  \<open>concurrent\<close> instead, whatever the windows hold. With the limiter switched off and
  \<open>requests_per_minute = 0\<close> a request is admitted although the count, 0, has reached
  \<open>0 * 1.5 = 0\<close>.
\<close>

theorem check_limit_hour_counterexample:
  "fst (check_limit demo_busy (Some ''alice'') 0 2)
     = Inl (RateLimitExceeded ''requests_per_hour'' (Some 3599))
   \<and> real_of_int (count (hour_seen demo_busy (Some ''alice'') 2))
       < real_of_int (requests_per_hour (config demo_busy)) * burst_multiplier (config demo_busy)
   \<and> fst (check_limit demo_tokens_near (Some ''bob'') 10 2) = Inr True
   \<and> real_of_int (tokens (minute_seen demo_tokens_near (Some ''bob'') 2) + 10)
       \<ge> real_of_int (tokens_per_minute (config demo_tokens_near)) * burst_multiplier (config demo_tokens_near)
   \<and> fst (check_limit demo_tokens_full (Some ''bob'') 0 2) = Inr True
   \<and> real_of_int (tokens (minute_seen demo_tokens_full (Some ''bob'') 2) + 0)
       \<ge> real_of_int (tokens_per_minute (config demo_tokens_full)) * burst_multiplier (config demo_tokens_full)
   \<and> fst (check_limit demo_odd (Some ''carol'') 0 2)
       = Inl (RateLimitExceeded ''requests_per_minute'' (Some 59))
   \<and> real_of_int (count (minute_seen demo_odd (Some ''carol'') 2))
       < real_of_int (requests_per_minute (config demo_odd)) * burst_multiplier (config demo_odd)
   \<and> fst (check_limit demo_odd_saturated (Some ''carol'') 0 2)
       = Inl (RateLimitExceeded ''concurrent'' (Some 1))
   \<and> minute_ceiling (config demo_odd_saturated) = Some 4
   \<and> count (minute_seen demo_odd_saturated (Some ''carol'') 2) \<ge> 4
   \<and> fst (check_limit demo_disabled (Some ''alice'') 0 2) = Inr True
   \<and> real_of_int (count (minute_seen demo_disabled (Some ''alice'') 2))
       \<ge> real_of_int (requests_per_minute (config demo_disabled)) * burst_multiplier (config demo_disabled)"
proof -
  have e: "enabled (config demo_busy)" "enabled (config demo_tokens_near)"
    "enabled (config demo_tokens_full)" "enabled (config demo_odd)"
    "enabled (config demo_odd_saturated)"
    by (simp_all add: demo_busy_windows demo_tokens_windows demo_odd_windows
          demo_odd_saturated_windows demo_limit_fields)
  have 1: "fst (check_limit demo_busy (Some ''alice'') 0 2)
       = Inl (RateLimitExceeded ''requests_per_hour'' (Some 3599))
     \<and> real_of_int (count (hour_seen demo_busy (Some ''alice'') 2))
       < real_of_int (requests_per_hour (config demo_busy)) * burst_multiplier (config demo_busy)"
    by (simp add: check_limit_fst [OF e(1)] demo_busy_windows demo_ceilings demo_limit_fields demo_seen_defs)
  have 2: "fst (check_limit demo_tokens_near (Some ''bob'') 10 2) = Inr True
     \<and> real_of_int (tokens (minute_seen demo_tokens_near (Some ''bob'') 2) + 10)
       \<ge> real_of_int (tokens_per_minute (config demo_tokens_near)) * burst_multiplier (config demo_tokens_near)"
    by (simp add: check_limit_fst [OF e(2)] demo_tokens_windows demo_ceilings demo_limit_fields demo_seen_defs)
  have 3: "fst (check_limit demo_tokens_full (Some ''bob'') 0 2) = Inr True
     \<and> real_of_int (tokens (minute_seen demo_tokens_full (Some ''bob'') 2) + 0)
       \<ge> real_of_int (tokens_per_minute (config demo_tokens_full)) * burst_multiplier (config demo_tokens_full)"
    by (simp add: check_limit_fst [OF e(3)] demo_tokens_windows demo_ceilings demo_limit_fields demo_seen_defs)
  have 4: "fst (check_limit demo_odd (Some ''carol'') 0 2)
       = Inl (RateLimitExceeded ''requests_per_minute'' (Some 59))
     \<and> real_of_int (count (minute_seen demo_odd (Some ''carol'') 2))
       < real_of_int (requests_per_minute (config demo_odd)) * burst_multiplier (config demo_odd)"
    by (simp add: check_limit_fst [OF e(4)] demo_odd_windows demo_ceilings demo_limit_fields demo_seen_defs)
  have 5: "fst (check_limit demo_odd_saturated (Some ''carol'') 0 2)
       = Inl (RateLimitExceeded ''concurrent'' (Some 1))
     \<and> minute_ceiling (config demo_odd_saturated) = Some 4
     \<and> count (minute_seen demo_odd_saturated (Some ''carol'') 2) \<ge> 4"
    by (simp add: check_limit_fst [OF e(5)] demo_odd_saturated_windows demo_ceilings demo_limit_fields demo_seen_defs)
  have 6: "fst (check_limit demo_disabled (Some ''alice'') 0 2) = Inr True
     \<and> real_of_int (count (minute_seen demo_disabled (Some ''alice'') 2))
       \<ge> real_of_int (requests_per_minute (config demo_disabled)) * burst_multiplier (config demo_disabled)"
    by (simp add: check_limit_def demo_disabled_def init_limiter_def demo_limit_config_def
          demo_seen_defs new_state_def)
  from 1 2 3 4 5 6 show ?thesis by blast
qed

lemma call_closed_failure:
  assumes "state cb = Closed" "call cb func w now now' = (r, cb1, w1)" "is_failure r"
  shows "failure_count cb1 = failure_count cb + 1 \<and> last_failure_time cb1 = Some now'
         \<and> failure_threshold cb1 = failure_threshold cb \<and> recovery_timeout cb1 = recovery_timeout cb
         \<and> state cb1 = (if failure_count cb + 1 \<ge> failure_threshold cb then Open else Closed)"
  using assms
  by (auto simp: call_def admit_def is_failure_def Let_def split: prod.splits sum.splits if_splits)

lemma run_calls_failures:
  "state cb = Closed \<Longrightarrow> cs \<noteq> [] \<Longrightarrow> failure_count cb + int (length cs) = failure_threshold cb
   \<Longrightarrow> run_calls cb w cs = (rs, cb', w') \<Longrightarrow> list_all is_failure rs
   \<Longrightarrow> state cb' = Open \<and> last_failure_time cb' = Some (snd (snd (last cs)))
       \<and> failure_threshold cb' = failure_threshold cb \<and> recovery_timeout cb' = recovery_timeout cb
       \<and> failure_count cb' = failure_threshold cb"
proof (induction cs arbitrary: cb w rs cb' w')
  case Nil
  then show ?case by simp
next
  case (Cons c cs)
  obtain func now now' where c: "c = (func, now, now')" by (cases c)
  obtain r cb1 w1 where step: "call cb func w now now' = (r, cb1, w1)"
    by (cases "call cb func w now now'")
  obtain rs1 cb2 w2 where rest: "run_calls cb1 w1 cs = (rs1, cb2, w2)"
    by (cases "run_calls cb1 w1 cs")
  from Cons.prems(4) c step rest have eqs: "rs = r # rs1" "cb' = cb2" "w' = w2" by auto
  with Cons.prems(5) have fr: "is_failure r" and frs: "list_all is_failure rs1" by auto
  note s1 = call_closed_failure [OF Cons.prems(1) step fr]
  show ?case
  proof (cases "cs = []")
    case True
    with rest have "cb2 = cb1" by simp
    with True s1 Cons.prems(3) eqs c show ?thesis by auto
  next
    case False
    with Cons.prems(3) have lt: "failure_count cb + 1 < failure_threshold cb" by (cases cs) auto
    with s1 have c1: "state cb1 = Closed" by simp
    from s1 Cons.prems(3) have len: "failure_count cb1 + int (length cs) = failure_threshold cb1" by simp
    from Cons.IH [OF c1 False len rest frs] s1 eqs False c show ?thesis by simp
  qed
qed


text \<open>
  C1. Starting from a fresh (closed) breaker with \<open>failure_threshold \<ge> 1\<close>, after
  \<open>failure_threshold\<close> consecutive calls that all failed the breaker is open and has
  recorded the time of the last failure. While no more than \<open>recovery_timeout\<close> seconds
  have passed since then, the next call fails with \<open>CircuitBreakerOpen\<close> and the wrapped
  function is not invoked (breaker and world are unchanged, whatever the function). Once
  strictly more than \<open>recovery_timeout\<close> seconds have passed, the next call is admitted in
  state half-open and the function runs: if it returns, the breaker is closed with
  \<open>failure_count = 0\<close>; if it raises, the breaker is open again and
  \<open>last_failure_time\<close> is the time of this failure.
\<close>

theorem circuit_breaker_state_machine:
  assumes "1 \<le> threshold" and "int (length cs) = threshold"
    and "run_calls (init_breaker threshold timeout) w0 cs = (rs, cb, w)"
    and "list_all is_failure rs"
  shows "state cb = Open \<and> last_failure_time cb = Some (snd (snd (last cs)))
    \<and> (now - snd (snd (last cs)) \<le> timeout \<longrightarrow>
          call cb func w now now' = (Inl CircuitBreakerOpen, cb, w))
    \<and> (now - snd (snd (last cs)) > timeout \<longrightarrow>
          admit cb now = (Inr (cb\<lparr>state := HalfOpen\<rparr>) :: 'x breaker_error + CircuitBreaker)
          \<and> (\<forall>res w'. func w = (Inr res, w') \<longrightarrow>
                (\<exists>cb'. call cb func w now now' = (Inr res, cb', w')
                       \<and> state cb' = Closed \<and> failure_count cb' = 0))
          \<and> (\<forall>e w'. func w = (Inl e, w') \<longrightarrow>
                (\<exists>cb'. call cb func w now now' = (Inl (FuncError e), cb', w')
                       \<and> state cb' = Open \<and> last_failure_time cb' = Some now')))"
proof -
  let ?cb0 = "init_breaker threshold timeout"
  from assms(1,2) have ne: "cs \<noteq> []" by auto
  have c0: "state ?cb0 = Closed" by (simp add: init_breaker_def)
  from assms(2) have len: "failure_count ?cb0 + int (length cs) = failure_threshold ?cb0"
    by (simp add: init_breaker_def)
  from run_calls_failures [OF c0 ne len assms(3) assms(4)]
  have st: "state cb = Open" and lf: "last_failure_time cb = Some (snd (snd (last cs)))"
    and th: "failure_threshold cb = threshold" and rt: "recovery_timeout cb = timeout"
    and fc: "failure_count cb = threshold"
    by (simp_all add: init_breaker_def)
  have blocked: "now - snd (snd (last cs)) \<le> timeout \<longrightarrow>
          call cb func w now now' = (Inl CircuitBreakerOpen, cb, w)"
    by (simp add: call_def admit_def st lf rt)
  have adm: "now - snd (snd (last cs)) > timeout \<longrightarrow>
          admit cb now = (Inr (cb\<lparr>state := HalfOpen\<rparr>) :: 'x breaker_error + CircuitBreaker)"
    by (simp add: admit_def st lf rt)
  have ok: "now - snd (snd (last cs)) > timeout \<longrightarrow>
          (\<forall>res w'. func w = (Inr res, w') \<longrightarrow>
                (\<exists>cb'. call cb func w now now' = (Inr res, cb', w')
                       \<and> state cb' = Closed \<and> failure_count cb' = 0))"
    by (simp add: call_def admit_def st lf rt)
  have bad: "now - snd (snd (last cs)) > timeout \<longrightarrow>
          (\<forall>e w'. func w = (Inl e, w') \<longrightarrow>
                (\<exists>cb'. call cb func w now now' = (Inl (FuncError e), cb', w')
                       \<and> state cb' = Open \<and> last_failure_time cb' = Some now'))"
    by (simp add: call_def admit_def st lf rt th fc Let_def)
  from st lf blocked adm ok bad show ?thesis by blast
qed

lemma demo_calls_run:
  "run_calls (init_breaker 3 (1/10)) (0::nat) demo_calls =
     ([Inl (FuncError ''boom''), Inl (FuncError ''boom''), Inl (FuncError ''boom'')],
      \<lparr>failure_count = 3, failure_threshold = 3, recovery_timeout = 1/10, state = Open,
       last_failure_time = Some 5\<rparr>, 3)"
  by (simp add: demo_calls_def demo_fail_def call_def admit_def init_breaker_def Let_def)

theorem circuit_breaker_state_machine_witness:
  "(1::int) \<le> 3 \<and> int (length demo_calls) = 3
   \<and> list_all is_failure (fst (run_calls (init_breaker 3 (1/10)) (0::nat) demo_calls))
   \<and> call (fst (snd (run_calls (init_breaker 3 (1/10)) (0::nat) demo_calls))) demo_ok 3 (5 + 1/20) 6
       = (Inl CircuitBreakerOpen, fst (snd (run_calls (init_breaker 3 (1/10)) (0::nat) demo_calls)), 3)
   \<and> (\<exists>cb'. call (fst (snd (run_calls (init_breaker 3 (1/10)) (0::nat) demo_calls))) demo_ok 3 (5 + 1/5) 6
              = (Inr ''rows'', cb', 4) \<and> state cb' = Closed \<and> failure_count cb' = 0)
   \<and> (\<exists>cb'. call (fst (snd (run_calls (init_breaker 3 (1/10)) (0::nat) demo_calls))) demo_fail 3 (5 + 1/5) 6
              = (Inl (FuncError ''boom''), cb', 4) \<and> state cb' = Open \<and> last_failure_time cb' = Some 6)"
proof -
  have h1: "(1::int) \<le> 3" by simp
  have h2: "int (length demo_calls) = 3" by (simp add: demo_calls_def)
  have h4: "list_all is_failure
     [Inl (FuncError ''boom''), Inl (FuncError ''boom''), Inl (FuncError ''boom'') :: string breaker_error + string]"
    by (simp add: is_failure_def)
  have l: "snd (snd (last demo_calls)) = 5" by (simp add: demo_calls_def)
  note t = circuit_breaker_state_machine [OF h1 h2 demo_calls_run h4]
  from t [of "5 + 1/20" demo_ok 6] t [of "5 + 1/5" demo_ok 6] t [of "5 + 1/5" demo_fail 6]
  show ?thesis
    using h2 h4 by (auto simp: l demo_calls_run demo_ok_def demo_fail_def)
qed

lemma snd_snd_prepend_events [simp]:
  "snd (snd (prepend_events evs x)) = evs @ snd (snd x)"
  by (simp add: prepend_events_def split: prod.splits)

lemma refreshes_from:
  "count_list (snd (snd (execute_with_retry_from cfg exec refresh a le w))) Refresh
     \<le> nat (max_retries cfg - int a)"
proof (induction "nat (max_retries cfg + 1 - int a)" arbitrary: a le w)
  case 0
  then have "\<not> int a < max_retries cfg + 1" by simp
  then show ?case by (simp add: execute_with_retry_from.simps)
next
  case (Suc n)
  then have lt: "int a < max_retries cfg + 1" and n: "n = nat (max_retries cfg + 1 - int (Suc a))"
    by simp_all
  note ih = Suc.hyps(1) [OF n]
  let ?w1 = "snd (exec w)"
  note i1 = ih [of le "snd (refresh ?w1)"] and i2 = ih [of le ?w1]
    and i3 = ih [of "Some (projl (fst (exec w)))" ?w1]
  show ?case
    apply (subst execute_with_retry_from.simps)
    using lt i1 i2 i3
    apply (simp split: prod.splits sum.splits exn.splits header.splits option.splits)
    apply (intro allI impI conjI)
    apply simp_all
    done
qed

lemma first_event:
  "int a < max_retries cfg + 1 \<Longrightarrow>
   \<exists>evs. snd (snd (execute_with_retry_from cfg exec refresh a le w)) = ToolCall a # evs"
  by (subst execute_with_retry_from.simps)
     (simp split: prod.splits sum.splits exn.splits header.splits option.splits)

lemma demo_401_events:
  "execute_with_retry demo_retry_config always_401 refresh_ok (0::nat) =
     (Inl (HTTPStatusError 401 Absent), 4,
      [ToolCall 0, Refresh, ToolCall 1, Refresh, ToolCall 2, Refresh, ToolCall 3])"
  by (simp add: execute_with_retry_def execute_with_retry_from.simps demo_retry_config_def
        always_401_def refresh_ok_def prepend_events_def)


text \<open>
  C3 (as amended). Within one run of \<open>_execute_with_retry\<close>, the retry loop of a
  \<open>call_tool\<close> request, every 401 received while attempts remain
  (\<open>attempt < max_retries\<close>) is answered by a token refresh; an exception of the refresh
  propagates to the caller, and after a refresh that returns the tool call is retried at
  once, as the next attempt and without a sleep. A 401 on the last attempt
  (\<open>attempt = max_retries\<close>) is not followed by a refresh and propagates to the caller.
  So a run performs at most \<open>max_retries\<close> refreshes: three by default, none when
  \<open>max_retries \<le> 0\<close>.
\<close>

theorem refresh_at_most_max_retries:
  "(int attempt < max_retries cfg \<longrightarrow> exec w = (Inl (HTTPStatusError 401 h), w1) \<longrightarrow>
      execute_with_retry_from cfg exec refresh attempt le w
        = (case refresh w1 of
             (Some re, w2) \<Rightarrow> (Inl re, w2, [ToolCall attempt, Refresh])
           | (None, w2) \<Rightarrow>
               prepend_events [ToolCall attempt, Refresh]
                 (execute_with_retry_from cfg exec refresh (Suc attempt) le w2))
      \<and> (fst (refresh w1) = None \<longrightarrow>
            (\<exists>evs. snd (snd (execute_with_retry_from cfg exec refresh attempt le w))
                     = ToolCall attempt # Refresh # ToolCall (Suc attempt) # evs)))
   \<and> (int attempt = max_retries cfg \<longrightarrow> exec w = (Inl (HTTPStatusError 401 h), w1) \<longrightarrow>
        execute_with_retry_from cfg exec refresh attempt le w
          = (Inl (HTTPStatusError 401 h), w1, [ToolCall attempt]))
   \<and> count_list (snd (snd (execute_with_retry cfg exec refresh w))) Refresh
        \<le> nat (max_retries cfg)"
proof -
  have bound: "count_list (snd (snd (execute_with_retry cfg exec refresh w))) Refresh
        \<le> nat (max_retries cfg)"
    using refreshes_from [of cfg exec refresh 0 None w] by (simp add: execute_with_retry_def)
  have last: "int attempt = max_retries cfg \<longrightarrow> exec w = (Inl (HTTPStatusError 401 h), w1) \<longrightarrow>
        execute_with_retry_from cfg exec refresh attempt le w
          = (Inl (HTTPStatusError 401 h), w1, [ToolCall attempt])"
    by (simp add: execute_with_retry_from.simps)
  {
    assume lt: "int attempt < max_retries cfg" and ex: "exec w = (Inl (HTTPStatusError 401 h), w1)"
    have eq: "execute_with_retry_from cfg exec refresh attempt le w
        = (case refresh w1 of
             (Some re, w2) \<Rightarrow> (Inl re, w2, [ToolCall attempt, Refresh])
           | (None, w2) \<Rightarrow>
               prepend_events [ToolCall attempt, Refresh]
                 (execute_with_retry_from cfg exec refresh (Suc attempt) le w2))"
      using lt ex
      by (subst execute_with_retry_from.simps) (simp split: prod.splits option.splits)
    have "fst (refresh w1) = None \<longrightarrow>
            (\<exists>evs. snd (snd (execute_with_retry_from cfg exec refresh attempt le w))
                     = ToolCall attempt # Refresh # ToolCall (Suc attempt) # evs)"
    proof
      assume r: "fst (refresh w1) = None"
      from lt have "int (Suc attempt) < max_retries cfg + 1" by simp
      from first_event [OF this, of exec refresh le "snd (refresh w1)"]
      obtain evs where
        "snd (snd (execute_with_retry_from cfg exec refresh (Suc attempt) le (snd (refresh w1))))
           = ToolCall (Suc attempt) # evs" by blast
      with r show "\<exists>evs. snd (snd (execute_with_retry_from cfg exec refresh attempt le w))
                     = ToolCall attempt # Refresh # ToolCall (Suc attempt) # evs"
        by (cases "refresh w1") (simp add: eq)
    qed
    note eq this
  }
  with bound last show ?thesis by blast
qed

theorem refresh_at_most_max_retries_witness:
  "int 0 < max_retries demo_retry_config
   \<and> always_401 0 = (Inl (HTTPStatusError 401 Absent), 1)
   \<and> fst (refresh_ok 1) = None
   \<and> fst (refresh_fails 1) \<noteq> None
   \<and> int 3 = max_retries demo_retry_config
   \<and> always_401 3 = (Inl (HTTPStatusError 401 Absent), 4)
   \<and> execute_with_retry_from demo_retry_config always_401 refresh_ok 0 None 0
        = prepend_events [ToolCall 0, Refresh]
            (execute_with_retry_from demo_retry_config always_401 refresh_ok 1 None 1)
   \<and> (\<exists>evs. snd (snd (execute_with_retry_from demo_retry_config always_401 refresh_ok 0 None 0))
               = ToolCall 0 # Refresh # ToolCall 1 # evs)
   \<and> execute_with_retry_from demo_retry_config always_401 refresh_fails 0 None 0
        = (Inl (OtherException ''token provider unavailable''), 1, [ToolCall 0, Refresh])
   \<and> execute_with_retry_from demo_retry_config always_401 refresh_ok 3 None 3
        = (Inl (HTTPStatusError 401 Absent), 4, [ToolCall 3])
   \<and> count_list (snd (snd (execute_with_retry demo_retry_config always_401 refresh_ok (0::nat)))) Refresh
        \<le> 3"
  using refresh_at_most_max_retries
          [of 0 demo_retry_config always_401 0 Absent 1 refresh_ok None]
        refresh_at_most_max_retries
          [of 0 demo_retry_config always_401 0 Absent 1 refresh_fails None]
        refresh_at_most_max_retries
          [of 3 demo_retry_config always_401 3 Absent 4 refresh_ok None]
  by (auto simp add: demo_retry_config_def always_401_def refresh_ok_def refresh_fails_def)

text \<open>
  C3 as stated fails: with the default \<open>max_retries = 3\<close> and a server that keeps
  answering 401, one run of \<open>_execute_with_retry\<close> refreshes the token three times
  before the fourth 401 propagates.
\<close>

theorem three_refreshes_counterexample:
  "execute_with_retry demo_retry_config always_401 refresh_ok (0::nat)
     = (Inl (HTTPStatusError 401 Absent), 4,
        [ToolCall 0, Refresh, ToolCall 1, Refresh, ToolCall 2, Refresh, ToolCall 3])
   \<and> \<not> count_list (snd (snd (execute_with_retry demo_retry_config always_401 refresh_ok (0::nat))))
          Refresh \<le> 1"
  by (simp add: demo_401_events)

lemma messages_valid_bad_role:
  "msg \<in> set ms \<Longrightarrow> msg = JDict md \<Longrightarrow> map_of md ''role'' = Some r
   \<Longrightarrow> r \<notin> set (map JStr allowed_roles) \<Longrightarrow> \<not> messages_valid ms"
  by (induction ms) (auto split: json.splits option.splits)

lemma messages_valid_bad_content:
  "msg \<in> set ms \<Longrightarrow> msg = JDict md \<Longrightarrow> map_of md ''content'' = Some c
   \<Longrightarrow> (\<forall>s. c \<noteq> JStr s) \<Longrightarrow> (\<forall>xs. c \<noteq> JList xs) \<Longrightarrow> c \<noteq> JNull \<Longrightarrow> \<not> messages_valid ms"
  by (induction ms) (auto split: json.splits option.splits)

lemma create_new_session_result:
  "fst (fst (create_new_session nt m cid now)) = cid"
  "snd (fst (create_new_session nt m cid now)) = fst (nt (agent_world m))"
  "agent_world (snd (create_new_session nt m cid now)) = snd (nt (agent_world m))"
  "\<exists>sess. sessions (snd (create_new_session nt m cid now)) cid = Some sess
      \<and> chat_id sess = cid \<and> thread sess = fst (nt (agent_world m))"
  by (simp_all add: create_new_session_def split: prod.splits)

text \<open>
  C6. A payload (from the cache or from persistence) whose message list holds a message
  with a role outside \<open>system, user, assistant, tool, function\<close>, or with a content that
  is neither a string, a list nor null, is not deserialized: \<open>_restore_session\<close> does
  exactly what \<open>_create_new_session\<close> does, whatever the agent's deserializer is. The
  thread returned is the fresh one of \<open>get_new_thread\<close>, it is returned with the
  provided \<open>chat_id\<close> and stored in the session of that \<open>chat_id\<close>, and the agent's world
  is the one \<open>get_new_thread\<close> left.
\<close>

theorem invalid_payload_creates_new_session:
  assumes "payload = JDict d" and "map_of d ''messages'' = Some (JList ms)"
    and "msg \<in> set ms" and "msg = JDict md"
    and "(\<exists>r. map_of md ''role'' = Some r \<and> r \<notin> set (map JStr allowed_roles))
         \<or> (\<exists>c. map_of md ''content'' = Some c
                 \<and> (\<forall>s. c \<noteq> JStr s) \<and> (\<forall>xs. c \<noteq> JList xs) \<and> c \<noteq> JNull)"
  shows "restore_session rt ag m cid payload now = create_new_session (get_new_thread ag) m cid now
    \<and> fst (restore_session rt ag m cid payload now) = (cid, fst (get_new_thread ag (agent_world m)))
    \<and> agent_world (snd (restore_session rt ag m cid payload now)) = snd (get_new_thread ag (agent_world m))
    \<and> (\<exists>sess. sessions (snd (restore_session rt ag m cid payload now)) cid = Some sess
          \<and> chat_id sess = cid \<and> thread sess = fst (get_new_thread ag (agent_world m)))"
proof -
  from assms(3,4,5) have "\<not> messages_valid ms"
    using messages_valid_bad_role messages_valid_bad_content by blast
  with assms(1,2) have "\<not> validate_thread_data payload"
    by (simp add: validate_thread_data_def)
  then have eq: "restore_session rt ag m cid payload now = create_new_session (get_new_thread ag) m cid now"
    by (simp add: restore_session_def)
  show ?thesis
    unfolding eq using create_new_session_result [of "get_new_thread ag" m cid now]
    by (simp add: prod_eq_iff)
qed

theorem invalid_payload_creates_new_session_witness:
  "fst (restore_session demo_runtime demo_agent demo_manager ''c1'' bad_role_payload 5) = (''c1'', ''new thread'')
   \<and> agent_world (snd (restore_session demo_runtime demo_agent demo_manager ''c1'' bad_role_payload 5)) = 1
   \<and> fst (restore_session demo_runtime demo_agent demo_manager ''c1'' bad_content_payload 5) = (''c1'', ''new thread'')
   \<and> agent_world (snd (restore_session demo_runtime demo_agent demo_manager ''c1'' bad_content_payload 5)) = 1"
proof -
  have r: "JStr ''admin'' \<notin> set (map JStr allowed_roles)" by (simp add: allowed_roles_def)
  have a: "(\<exists>r. map_of [(''role'', JStr ''admin''), (''content'', JStr ''rm'')] ''role'' = Some r
               \<and> r \<notin> set (map JStr allowed_roles))
         \<or> (\<exists>c. map_of [(''role'', JStr ''admin''), (''content'', JStr ''rm'')] ''content'' = Some c
                 \<and> (\<forall>s. c \<noteq> JStr s) \<and> (\<forall>xs. c \<noteq> JList xs) \<and> c \<noteq> JNull)"
    using r by simp
  have b: "(\<exists>r. map_of [(''role'', JStr ''user''), (''content'', JInt 7)] ''role'' = Some r
               \<and> r \<notin> set (map JStr allowed_roles))
         \<or> (\<exists>c. map_of [(''role'', JStr ''user''), (''content'', JInt 7)] ''content'' = Some c
                 \<and> (\<forall>s. c \<noteq> JStr s) \<and> (\<forall>xs. c \<noteq> JList xs) \<and> c \<noteq> JNull)"
    by simp
  have p1: "map_of [(''messages'', JList [JDict [(''role'', JStr ''user''), (''content'', JStr ''hi'')],
                                  JDict [(''role'', JStr ''admin''), (''content'', JStr ''rm'')]])] ''messages''
             = Some (JList [JDict [(''role'', JStr ''user''), (''content'', JStr ''hi'')],
                            JDict [(''role'', JStr ''admin''), (''content'', JStr ''rm'')]])"
    by simp
  have p2: "JDict [(''role'', JStr ''admin''), (''content'', JStr ''rm'')]
             \<in> set [JDict [(''role'', JStr ''user''), (''content'', JStr ''hi'')],
                    JDict [(''role'', JStr ''admin''), (''content'', JStr ''rm'')]]"
    by simp
  have q1: "map_of [(''messages'', JList [JDict [(''role'', JStr ''user''), (''content'', JInt 7)]])] ''messages''
             = Some (JList [JDict [(''role'', JStr ''user''), (''content'', JInt 7)]])"
    by simp
  have q2: "JDict [(''role'', JStr ''user''), (''content'', JInt 7)]
             \<in> set [JDict [(''role'', JStr ''user''), (''content'', JInt 7)]]"
    by simp
  from invalid_payload_creates_new_session
         [OF bad_role_payload_def p1 p2 refl a,
          where rt = demo_runtime and ag = demo_agent and m = demo_manager and cid = "''c1''" and now = 5]
       invalid_payload_creates_new_session
         [OF bad_content_payload_def q1 q2 refl b,
          where rt = demo_runtime and ag = demo_agent and m = demo_manager and cid = "''c1''" and now = 5]
  show ?thesis
    by (simp add: demo_agent_def demo_manager_def create_new_session_def)
qed

lemma map_of_foldl_update:
  "map_of (foldl (\<lambda>acc k. AList.update k (f k) acc) a ks) k
     = (if k \<in> set ks then Some (f k) else map_of a k)"
  by (induction ks arbitrary: a) (auto simp: update_conv')

lemma map_of_dict_merge:
  "map_of (dict_merge a b) k = (case map_of b k of Some v \<Rightarrow> Some v | None \<Rightarrow> map_of a k)"
proof (cases "map_of b k")
  case None
  then have "k \<notin> set (dict_keys b)" by (simp add: dict_keys_def map_of_eq_None_iff)
  with None show ?thesis by (simp add: dict_merge_def map_of_foldl_update)
next
  case (Some v)
  then have "k \<in> set (dict_keys b)"
    by (force simp: dict_keys_def dest: map_of_SomeD)
  with Some show ?thesis by (simp add: dict_merge_def map_of_foldl_update dict_get_def)
qed

lemma map_of_dict_merge_self: "map_of (dict_merge a a) = map_of a"
  by (rule ext) (simp add: map_of_dict_merge split: option.splits)

lemma merge_thread_data_self:
  assumes "map_of a ''messages'' = None \<or> (\<exists>ms. map_of a ''messages'' = Some (JList ms))"
  shows "\<exists>mg. merge_thread_data rt a a = Inr mg \<and> map_of mg = map_of a"
proof -
  define merged where
    "merged = (case map_of a ''_created_at'' of
                 Some c \<Rightarrow> AList.update ''_created_at'' c (dict_merge a a)
               | None \<Rightarrow> dict_merge a a)"
  have m: "map_of merged = map_of a"
    by (auto simp: merged_def update_conv' map_of_dict_merge_self split: option.splits)
  from assms show ?thesis
  proof
    assume n: "map_of a ''messages'' = None"
    then have "merge_thread_data rt a a = Inr merged"
      by (simp add: merge_thread_data_def merged_def [symmetric] debug_lengths_def dict_get_def m)
    with m show ?thesis by blast
  next
    assume "\<exists>ms. map_of a ''messages'' = Some (JList ms)"
    then obtain ms where s: "map_of a ''messages'' = Some (JList ms)" by blast
    then have "merge_thread_data rt a a = Inr (AList.update ''messages'' (JList ms) merged)"
      by (simp add: merge_thread_data_def merged_def [symmetric] debug_lengths_def dict_get_def
            update_conv')
    moreover have "map_of (AList.update ''messages'' (JList ms) merged) = map_of a"
      using s by (auto simp: update_conv' m)
    ultimately show ?thesis by blast
  qed
qed


text \<open>
  C7. Let \<open>a\<close> be the blob already stored for a chat: a non-empty dictionary (the code
  merges only with a truthy stored blob, and every blob it stores carries \<open>_persisted\<close>)
  whose \<open>messages\<close>, if present, is a list and whose \<open>_merge_count\<close>, if present, is an
  integer. Persisting \<open>a\<close> again succeeds and writes a blob that agrees at every key other
  than \<open>_merge_count\<close> with the blob written by persisting \<open>a\<close> alone (no stored blob, same
  clock reading), and whose \<open>_merge_count\<close> is the stored one (0 when absent) plus 1.
\<close>

theorem persist_merge_idempotent:
  assumes "persistence_store m cid = Some (JDict a)" and "a \<noteq> []"
    and "map_of a ''messages'' = None \<or> (\<exists>ms. map_of a ''messages'' = Some (JList ms))"
    and "map_of a ''_merge_count'' = None \<or> (\<exists>n. map_of a ''_merge_count'' = Some (JInt n))"
    and "persistence_accepts m"
  shows "\<exists>b c m1 m2.
           persist_with_merge rt m cid (JDict a) now = (True, m1)
         \<and> persistence_store m1 cid = Some (JDict b)
         \<and> persist_with_merge rt (m\<lparr>persistence_store := (persistence_store m)(cid := None)\<rparr>)
               cid (JDict a) now = (True, m2)
         \<and> persistence_store m2 cid = Some (JDict c)
         \<and> (\<forall>k. k \<noteq> ''_merge_count'' \<longrightarrow> map_of b k = map_of c k)
         \<and> map_of b ''_merge_count''
             = Some (JInt ((case map_of a ''_merge_count'' of Some (JInt n) \<Rightarrow> n | _ \<Rightarrow> 0) + 1))"
proof -
  from merge_thread_data_self [OF assms(3)]
  obtain mg where mg: "merge_thread_data rt a a = Inr mg" and mm: "map_of mg = map_of a" by blast
  define n where "n = (case map_of a ''_merge_count'' of Some (JInt n) \<Rightarrow> n | _ \<Rightarrow> 0)"
  from assms(4) have cnt: "py_add_one (dict_get a ''_merge_count'' (JInt 0)) = Inr (JInt (n + 1))"
    by (auto simp: dict_get_def n_def)
  define b where
    "b = AList.update ''_persisted_at'' (JStr (isoformat rt now))
           (AList.update ''_persisted'' (JBool True) (AList.update ''_merge_count'' (JInt (n + 1)) mg))"
  define c where
    "c = AList.update ''_persisted_at'' (JStr (isoformat rt now)) (AList.update ''_persisted'' (JBool True) a)"
  have blob1: "merged_blob rt (persistence_store m cid) (JDict a)
                 = Inr (AList.update ''_merge_count'' (JInt (n + 1)) mg)"
    using assms(1,2) by (simp add: merged_blob_def mg cnt)
  have blob2: "merged_blob rt None (JDict a) = Inr a"
    by (simp add: merged_blob_def)
  have p1: "\<exists>m1. persist_with_merge rt m cid (JDict a) now = (True, m1)
              \<and> persistence_store m1 cid = Some (JDict b)"
    using assms(5) by (simp add: persist_with_merge_def blob1 Let_def b_def)
  have p2: "\<exists>m2. persist_with_merge rt (m\<lparr>persistence_store := (persistence_store m)(cid := None)\<rparr>)
                     cid (JDict a) now = (True, m2)
              \<and> persistence_store m2 cid = Some (JDict c)"
    using assms(5) blob2 by (simp add: persist_with_merge_def Let_def c_def)
  have agree: "\<forall>k. k \<noteq> ''_merge_count'' \<longrightarrow> map_of b k = map_of c k"
    by (simp add: b_def c_def update_conv' mm)
  have count: "map_of b ''_merge_count'' = Some (JInt (n + 1))"
    by (simp add: b_def update_conv')
  from p1 p2 agree count show ?thesis
    unfolding n_def by blast
qed

theorem persist_merge_idempotent_witness:
  "persistence_store demo_stored_manager ''c1'' = Some (JDict demo_blob)
   \<and> demo_blob \<noteq> []
   \<and> persistence_accepts demo_stored_manager
   \<and> (\<exists>b m1. persist_with_merge demo_runtime demo_stored_manager ''c1'' (JDict demo_blob) 9 = (True, m1)
          \<and> persistence_store m1 ''c1'' = Some (JDict b)
          \<and> map_of b ''_merge_count'' = Some (JInt 3)
          \<and> map_of b ''messages'' = map_of demo_blob ''messages'')"
proof -
  have h1: "persistence_store demo_stored_manager ''c1'' = Some (JDict demo_blob)"
    by (simp add: demo_stored_manager_def)
  have h2: "demo_blob \<noteq> []" by (simp add: demo_blob_def)
  have h3: "map_of demo_blob ''messages'' = None \<or> (\<exists>ms. map_of demo_blob ''messages'' = Some (JList ms))"
    by (simp add: demo_blob_def)
  have h4: "map_of demo_blob ''_merge_count'' = None \<or> (\<exists>n. map_of demo_blob ''_merge_count'' = Some (JInt n))"
    by (simp add: demo_blob_def)
  have h5: "persistence_accepts demo_stored_manager"
    by (simp add: demo_stored_manager_def demo_manager_def)
  have mc: "map_of demo_blob ''_merge_count'' = Some (JInt 2)" by (simp add: demo_blob_def)
  from persist_merge_idempotent [OF h1 h2 h3 h4 h5, of demo_runtime 9]
  obtain b c m1 m2 where
    r: "persist_with_merge demo_runtime demo_stored_manager ''c1'' (JDict demo_blob) 9 = (True, m1)"
       "persistence_store m1 ''c1'' = Some (JDict b)"
       "persist_with_merge demo_runtime
          (demo_stored_manager\<lparr>persistence_store := (persistence_store demo_stored_manager)(''c1'' := None)\<rparr>)
          ''c1'' (JDict demo_blob) 9 = (True, m2)"
       "persistence_store m2 ''c1'' = Some (JDict c)"
       "\<forall>k. k \<noteq> ''_merge_count'' \<longrightarrow> map_of b k = map_of c k"
       "map_of b ''_merge_count'' = Some (JInt 3)"
    by (auto simp: mc)
  from r(3,4) h5 have "map_of c ''messages'' = map_of demo_blob ''messages''"
    by (auto simp: persist_with_merge_def merged_blob_def Let_def update_conv' split: if_splits)
  with r(5) have "map_of b ''messages'' = map_of demo_blob ''messages''" by simp
  with r(1,2,6) h1 h2 h5 show ?thesis by blast
qed

lemma needs_summarization_keeps:
  assumes "sessions m cid = Some sess" and "needs_summarization cfg rt ops m cid = (b, m1)"
  shows "\<exists>sess1. sessions m1 cid = Some sess1 \<and> thread sess1 = thread sess"
    and "agent_world m1 = agent_world m" and "cache_store m1 = cache_store m"
    and "persistence_store m1 = persistence_store m"
  using assms by (auto simp: needs_summarization_def Let_def split: if_splits)

text \<open>
  C8. When the serialized thread of a session has a message list no longer than
  \<open>recent_messages_to_keep\<close>, \<open>summarize_if_needed\<close> returns false and the session keeps
  its thread; nothing is asked of the agent and nothing is written to the cache or the
  object store. This holds whatever the token estimate and the configuration are, so also
  when the estimate exceeds \<open>max_tokens\<close> with summarization enabled.
\<close>

theorem short_thread_not_summarized:
  assumes "sessions m cid = Some sess"
    and "serialize ops (thread sess) = Inr (JDict td)"
    and "dict_get td ''messages'' (JList []) = JList msgs"
    and "int (length msgs) \<le> recent_messages_to_keep cfg"
  shows "fst (summarize_if_needed cfg rt ops self_agent summarizer_agent m cid now) = False
    \<and> (\<exists>sess'. sessions (snd (summarize_if_needed cfg rt ops self_agent summarizer_agent m cid now)) cid
                  = Some sess' \<and> thread sess' = thread sess)
    \<and> agent_world (snd (summarize_if_needed cfg rt ops self_agent summarizer_agent m cid now)) = agent_world m
    \<and> cache_store (snd (summarize_if_needed cfg rt ops self_agent summarizer_agent m cid now)) = cache_store m
    \<and> persistence_store (snd (summarize_if_needed cfg rt ops self_agent summarizer_agent m cid now))
         = persistence_store m"
proof -
  obtain b m1 where ns: "needs_summarization cfg rt ops m cid = (b, m1)"
    by (cases "needs_summarization cfg rt ops m cid")
  from needs_summarization_keeps [OF assms(1) ns]
  obtain sess1 where s1: "sessions m1 cid = Some sess1" "thread sess1 = thread sess"
    and w: "agent_world m1 = agent_world m" "cache_store m1 = cache_store m"
           "persistence_store m1 = persistence_store m"
    by blast
  have "summarize_if_needed cfg rt ops self_agent summarizer_agent m cid now = (False, m1)"
    using assms(2,3,4) s1
    by (cases b) (simp_all add: summarize_if_needed_def ns Let_def split: option.splits)
  with s1 w show ?thesis by simp
qed

lemma demo_estimate: "estimate_thread_tokens demo_runtime demo_thread_ops ''long thread'' = 2000"
  by (simp add: estimate_thread_tokens_def demo_thread_ops_def demo_messages_def message_content_def
        content_chars_def dict_get_def)

theorem short_thread_not_summarized_witness:
  "summarization_enabled demo_summarization
   \<and> estimate_thread_tokens demo_runtime demo_thread_ops ''long thread'' > max_tokens demo_summarization
   \<and> int (length demo_messages) \<le> recent_messages_to_keep demo_summarization
   \<and> fst (summarize_if_needed demo_summarization demo_runtime demo_thread_ops (Some demo_agent) None
            demo_session_manager ''c1'' 7) = False
   \<and> (\<exists>sess'. sessions (snd (summarize_if_needed demo_summarization demo_runtime demo_thread_ops
                               (Some demo_agent) None demo_session_manager ''c1'' 7)) ''c1'' = Some sess'
               \<and> thread sess' = ''long thread'')
   \<and> agent_world (snd (summarize_if_needed demo_summarization demo_runtime demo_thread_ops
                        (Some demo_agent) None demo_session_manager ''c1'' 7)) = 0"
proof -
  have h1: "sessions demo_session_manager ''c1'' =
      Some \<lparr>chat_id = ''c1'', thread = ''long thread'', created_at = 0, last_accessed = 0,
        message_count = JInt 2, persisted = JBool False, summarized = False, summary_count = 0,
        estimated_tokens = 0, mcp_sessions = Map.empty\<rparr>"
    by (simp add: demo_session_manager_def)
  have h2: "serialize demo_thread_ops
      (thread \<lparr>chat_id = ''c1'', thread = ''long thread'', created_at = 0, last_accessed = 0,
        message_count = JInt 2, persisted = JBool False, summarized = False, summary_count = 0,
        estimated_tokens = 0, mcp_sessions = Map.empty\<rparr>) = Inr (JDict [(''messages'', JList demo_messages)])"
    by (simp add: demo_thread_ops_def)
  have h3: "dict_get [(''messages'', JList demo_messages)] ''messages'' (JList []) = JList demo_messages"
    by (simp add: dict_get_def)
  have h4: "int (length demo_messages) \<le> recent_messages_to_keep demo_summarization"
    by (simp add: demo_messages_def demo_summarization_def)
  from short_thread_not_summarized [OF h1 h2 h3 h4, of demo_runtime "Some demo_agent" None 7]
  show ?thesis
    using h4 by (simp add: demo_estimate demo_summarization_def demo_session_manager_def demo_manager_def)
qed

lemma evaluate_total_otherwise:
  assumes "(\<exists>d. output = JDict d)
           \<or> (\<exists>s. output = JStr s \<and> (\<forall>e. json_loads ip s = Inl e \<longrightarrow> e = JSONDecodeError \<or> e = TypeError))"
  shows "\<exists>b. evaluate rt ip cond output = Inr b"
  using assms
  by (auto simp: evaluate_def split: sum.splits json.splits py_error.splits)

text \<open>
  C4 fails on the code. \<open>evaluate\<close> calls \<^verbatim>\<open>json.loads(output)\<close> on a string output
  outside its \<^verbatim>\<open>try ... except Exception\<close>, under a handler for
  \<open>JSONDecodeError\<close> and \<open>TypeError\<close> only: any other exception of \<^verbatim>\<open>json.loads\<close>
  leaves \<open>evaluate\<close> as it is, for every non-empty condition. CPython raises a plain
  \<open>ValueError\<close> on a numeral of more than 4300 digits and a \<open>RecursionError\<close> on
  deeply nested brackets.
\<close>

theorem evaluate_raises_on_loads_error:
  assumes "cond \<noteq> []" and "json_loads ip s = Inl e" and "e \<noteq> JSONDecodeError" and "e \<noteq> TypeError"
  shows "evaluate rt ip cond (JStr s) = Inl e"
  using assms by (cases e) (simp_all add: evaluate_def)

theorem evaluate_raises_on_loads_error_witness:
  "''ok'' \<noteq> [] \<and> json_loads demo_interp digits_output = Inl PyValueError
   \<and> PyValueError \<noteq> JSONDecodeError \<and> PyValueError \<noteq> TypeError
   \<and> evaluate demo_runtime demo_interp ''ok'' (JStr digits_output) = Inl PyValueError"
proof -
  have l: "json_loads demo_interp digits_output = Inl PyValueError"
    by (simp add: demo_interp_def digits_output_def is_digit_def list_all_iff hd_replicate)
  have n: "''ok'' \<noteq> []" by simp
  from evaluate_raises_on_loads_error [OF n l, of demo_runtime] l show ?thesis by simp
qed

text \<open>
  C5 fails on the code. The loop of \<open>evaluate_next_agent\<close> returns at the first edge
  without a condition, before the conditional edges after it are looked at. With the
  fallback edge declared before a conditional edge of the same priority, the output
  \<open>{"category": "technical"}\<close> makes the condition of the edge to \<open>TechSupport\<close> true,
  and the next agent is \<open>Default\<close>.
\<close>

theorem default_edge_preempts_condition:
  "map to_agent demo_edges = [''Default'', ''TechSupport'']
   \<and> evaluate demo_runtime demo_interp technical_condition
         (JDict [(''category'', JStr ''technical'')]) = Inr True
   \<and> evaluate_next_agent demo_runtime demo_interp [''wf'' \<mapsto> demo_edges] ''wf'' ''Triage''
         (JDict [(''category'', JStr ''technical'')]) = Inr (Some ''Default'')"
  by code_simp

end
